theory Spec2Isabelle
  imports Complex_Main "HOL-Library.Word"
begin

section \<open>Strings and machine integers\<close>

text \<open>
  \<^verbatim>\<open>UINT64\<close> is \<^verbatim>\<open>unsigned long long\<close>: a 64-bit word whose order is the unsigned
  one. Bytes are 8-bit words. Counts and sizes on which no claim depends through
  wrap-around are natural numbers.
\<close>

type_synonym UINT64 = "64 word"
type_synonym byte = "8 word"

text \<open>
  Modelled from the spec: \<^verbatim>\<open>SysTools::ToLowerCase\<close> and \<^verbatim>\<open>SysTools::ToUpperCase\<close> are
  not among the sources. The spec speaks of matching extensions without regard to
  letter case; the model changes the case of the ASCII letters and leaves every other
  character as it is. Bit 5 of an ASCII letter is its case.
\<close>

fun tolower :: "char \<Rightarrow> char" where
  "tolower (Char b0 b1 b2 b3 b4 b5 b6 b7) =
     (let n = (of_char (Char b0 b1 b2 b3 b4 b5 b6 b7) :: nat) in
      if 65 \<le> n \<and> n \<le> 90 then Char b0 b1 b2 b3 b4 True b6 b7
      else Char b0 b1 b2 b3 b4 b5 b6 b7)"

fun toupper :: "char \<Rightarrow> char" where
  "toupper (Char b0 b1 b2 b3 b4 b5 b6 b7) =
     (let n = (of_char (Char b0 b1 b2 b3 b4 b5 b6 b7) :: nat) in
      if 97 \<le> n \<and> n \<le> 122 then Char b0 b1 b2 b3 b4 False b6 b7
      else Char b0 b1 b2 b3 b4 b5 b6 b7)"

definition ToLowerCase :: "string \<Rightarrow> string" where
  "ToLowerCase s = map tolower s"

definition ToUpperCase :: "string \<Rightarrow> string" where
  "ToUpperCase s = map toupper s"

section \<open>Data of the conversion pipeline\<close>

text \<open>
  The metadata of a volume as \<^verbatim>\<open>MergeDatasets\<close> keeps it for the first input (the
  variables with the suffix \<^verbatim>\<open>G\<close>); the same record holds the corresponding output
  parameters of \<^verbatim>\<open>ConvertToRAW\<close>.
\<close>

record volume_info =
  iComponentSizeG :: nat
  iComponentCountG :: nat
  bConvertEndianessG :: bool
  bSignedG :: bool
  bIsFloatG :: bool
  vVolumeSizeG :: "nat \<times> nat \<times> nat"
  vVolumeAspectG :: "real \<times> real \<times> real"

text \<open>The struct \<^verbatim>\<open>MergeDataset\<close>: one intermediate raw file.\<close>

record MergeDataset =
  strFilename :: string
  iHeaderSkip :: nat
  bDelete :: bool
  fScale :: real
  fBias :: real

text \<open>
  The arguments of a call of \<^verbatim>\<open>RAWConverter::ConvertRAWDataset\<close>, in the order of the
  call. The call for a DICOM stack passes two more arguments between the brick overlap
  and the quantisation flag, an undefined element semantic and a zero; they are the
  same in every call and are left out.
\<close>

record raw_args =
  arg_strFilename :: string
  arg_strTargetFilename :: string
  arg_strTempDir :: string
  arg_iHeaderSkip :: nat
  arg_iComponentSize :: nat
  arg_iComponentCount :: nat
  arg_timesteps :: nat
  arg_bConvertEndianness :: bool
  arg_bSigned :: bool
  arg_bIsFloat :: bool
  arg_vVolumeSize :: "nat \<times> nat \<times> nat"
  arg_vVolumeAspect :: "real \<times> real \<times> real"
  arg_strDesc :: string
  arg_strSource :: string
  arg_iTargetBrickSize :: UINT64
  arg_iTargetBrickOverlap :: UINT64
  arg_bQuantizeTo8Bit :: bool

text \<open>
  The output parameters of a successful \<^verbatim>\<open>AbstrConverter::ConvertToRAW\<close>: the header
  skip, the metadata, the name of the intermediate file and whether the caller is to
  delete it. (The title and the element semantic are output parameters too; nothing
  modelled here reads them.)
\<close>

record raw_conversion =
  out_iHeaderSkip :: nat
  out_info :: volume_info
  out_strIntermediateFile :: string
  out_bDeleteIntermediateFile :: bool

text \<open>The arguments of \<^verbatim>\<open>AbstrConverter::ConvertToNative\<close> that the facade chooses.\<close>

record native_args =
  nat_strRawFilename :: string
  nat_strTargetFilename :: string
  nat_iHeaderSkip :: nat
  nat_info :: volume_info
  nat_bNoUserInteraction :: bool
  nat_bQuantizeTo8Bit :: bool

text \<open>
  A converter plugin (\<^verbatim>\<open>AbstrConverter\<close>). The classes themselves are outside the
  sources, so a converter is the record of what the facade can observe of it.
  \<open>address\<close> is the pointer value: \<^verbatim>\<open>identify_converters\<close> collects pointers in a
  \<^verbatim>\<open>std::set\<close>, which iterates in the order of the addresses. \<^verbatim>\<open>CanRead\<close> is given the
  file name and the first 512 bytes of that file, which the name determines.
  \<^verbatim>\<open>ConvertToRAW\<close> answers \<open>None\<close> when it returns false.
\<close>

record converter =
  address :: nat
  GetDesc :: string
  SupportedExt :: "string list"
  CanExportData :: bool
  CanRead :: "string \<Rightarrow> bool"
  ConvertToRAW :: "string \<Rightarrow> string \<Rightarrow> bool \<Rightarrow> raw_conversion option"
  ConvertToNative :: "native_args \<Rightarrow> bool"

section \<open>The IOManager: settings and converter registry\<close>

record IOManager =
  m_vpConverters :: "converter list"
  m_pFinalConverter :: "converter option"
  m_iMaxBrickSize :: UINT64
  m_iBrickOverlap :: UINT64
  m_iIncoresize :: UINT64

text \<open>
  The constructor's initialiser list and body. The macros \<^verbatim>\<open>DEFAULT_BRICKSIZE\<close> and
  \<^verbatim>\<open>DEFAULT_BRICKOVERLAP\<close> and the thirteen converter classes it instantiates are
  defined outside the sources, so they are parameters here.
\<close>

definition IOManager_ctor :: "converter list \<Rightarrow> UINT64 \<Rightarrow> UINT64 \<Rightarrow> IOManager" where
  "IOManager_ctor builtin DEFAULT_BRICKSIZE DEFAULT_BRICKOVERLAP =
     \<lparr> m_vpConverters = builtin,
       m_pFinalConverter = None,
       m_iMaxBrickSize = DEFAULT_BRICKSIZE,
       m_iBrickOverlap = DEFAULT_BRICKOVERLAP,
       m_iIncoresize = DEFAULT_BRICKSIZE * DEFAULT_BRICKSIZE * DEFAULT_BRICKSIZE \<rparr>"

definition RegisterExternalConverter :: "converter \<Rightarrow> IOManager \<Rightarrow> IOManager" where
  "RegisterExternalConverter pConverter io =
     io\<lparr>m_vpConverters := m_vpConverters io @ [pConverter]\<rparr>"

definition RegisterFinalConverter :: "converter \<Rightarrow> IOManager \<Rightarrow> IOManager" where
  "RegisterFinalConverter pConverter io = io\<lparr>m_pFinalConverter := Some pConverter\<rparr>"

definition SetMaxBrickSize :: "UINT64 \<Rightarrow> IOManager \<Rightarrow> bool \<times> IOManager" where
  "SetMaxBrickSize iMaxBrickSize io =
     (if iMaxBrickSize > m_iBrickOverlap io
      then (True, io\<lparr>m_iMaxBrickSize := iMaxBrickSize\<rparr>)
      else (False, io))"

definition SetBrickOverlap :: "UINT64 \<Rightarrow> IOManager \<Rightarrow> bool \<times> IOManager" where
  "SetBrickOverlap iBrickOverlap io =
     (if m_iMaxBrickSize io > iBrickOverlap
      then (True, io\<lparr>m_iBrickOverlap := iBrickOverlap\<rparr>)
      else (False, io))"

text \<open>
  Apart from the constructor, the two setters and the two registration functions are
  the only member functions that are not \<^verbatim>\<open>const\<close>. A client's use of an IOManager
  is therefore a sequence of these calls.
\<close>

datatype manager_call =
    CallSetMaxBrickSize UINT64
  | CallSetBrickOverlap UINT64
  | CallRegisterExternalConverter converter
  | CallRegisterFinalConverter converter

fun run_call :: "manager_call \<Rightarrow> IOManager \<Rightarrow> IOManager" where
  "run_call (CallSetMaxBrickSize n) io = snd (SetMaxBrickSize n io)"
| "run_call (CallSetBrickOverlap n) io = snd (SetBrickOverlap n io)"
| "run_call (CallRegisterExternalConverter c) io = RegisterExternalConverter c io"
| "run_call (CallRegisterFinalConverter c) io = RegisterFinalConverter c io"

definition run_calls :: "manager_call list \<Rightarrow> IOManager \<Rightarrow> IOManager" where
  "run_calls cs io = fold run_call cs io"

definition brick_invariant :: "IOManager \<Rightarrow> bool" where
  "brick_invariant io \<longleftrightarrow> m_iMaxBrickSize io > m_iBrickOverlap io"

subsection \<open>Lookup of a converter by extension\<close>

text \<open>
  The inner loop of \<^verbatim>\<open>GetConverterForExt\<close>: is the argument equal to the lower-case
  form of one of the advertised extensions?
\<close>

fun ext_among :: "string \<Rightarrow> string list \<Rightarrow> bool" where
  "ext_among ext [] = False"
| "ext_among ext (e # es) = (if ext = ToLowerCase e then True else ext_among ext es)"

text \<open>
  The outer loop, from index \<open>i\<close> on. The function returns the pointer
  \<^verbatim>\<open>m_vpConverters[i]\<close>; the model returns the index, and \<open>None\<close> for \<^verbatim>\<open>NULL\<close>.
\<close>

fun GetConverterForExt_from ::
  "nat \<Rightarrow> converter list \<Rightarrow> string \<Rightarrow> bool \<Rightarrow> nat option" where
  "GetConverterForExt_from i [] ext bMustSupportExport = None"
| "GetConverterForExt_from i (c # cs) ext bMustSupportExport =
     (if (\<not> bMustSupportExport \<or> CanExportData c) \<and> ext_among ext (SupportedExt c)
      then Some i
      else GetConverterForExt_from (Suc i) cs ext bMustSupportExport)"

definition GetConverterForExt :: "IOManager \<Rightarrow> string \<Rightarrow> bool \<Rightarrow> nat option" where
  "GetConverterForExt io ext bMustSupportExport =
     GetConverterForExt_from 0 (m_vpConverters io) ext bMustSupportExport"

section \<open>Datasets and the environment\<close>

text \<open>
  Modelled from the spec: \<^verbatim>\<open>RasterDataBlock\<close> belongs to the UVF library, which is
  outside the sources. Following the spec's description of the stats builder (every
  (LOD, brick) pair of the block, brick counts per LOD, voxels read with the statically
  known voxel type), a block is its element description and, for each LOD, the brick
  counts per axis and the voxels of each brick. The first four fields are the members
  the sources read: \<^verbatim>\<open>ulElementDimensionSize[0]\<close>, \<^verbatim>\<open>ulElementBitSize[0][0]\<close>,
  \<^verbatim>\<open>ulElementMantissa[0][0]\<close> and \<^verbatim>\<open>bSignedElement[0][0]\<close>. \<^verbatim>\<open>GetData<T>\<close> reads a
  brick as a vector of \<open>T\<close>: \<open>brick_ints\<close> are the voxels of a brick as the integers
  they store, \<open>brick_floats\<close> are the voxels as the (finite) floating-point values
  they store.
\<close>

record lod_level =
  brick_counts :: "nat \<times> nat \<times> nat"
  brick_ints :: "nat \<times> nat \<times> nat \<Rightarrow> int list"
  brick_floats :: "nat \<times> nat \<times> nat \<Rightarrow> real list"

record RasterDataBlock =
  ulElementDimensionSize :: nat
  ulElementBitSize :: nat
  ulElementMantissa :: nat
  bSignedElement :: bool
  lod_levels :: "lod_level list"

text \<open>
  Modelled from the spec: \<^verbatim>\<open>RasterDataBlock::ValidLOD\<close> and
  \<^verbatim>\<open>RasterDataBlock::ValidBrickIndex\<close> are not among the sources. The spec has the
  stats builder visit every (LOD, brick) pair of the block: a LOD is valid when the
  block has it, and a brick index is valid when the LOD is and each coordinate is below
  the LOD's brick count along its axis.
\<close>

definition ValidLOD :: "RasterDataBlock \<Rightarrow> nat \<Rightarrow> bool" where
  "ValidLOD rdb lod \<longleftrightarrow> lod < length (lod_levels rdb)"

definition ValidBrickIndex :: "RasterDataBlock \<Rightarrow> nat \<Rightarrow> nat \<times> nat \<times> nat \<Rightarrow> bool" where
  "ValidBrickIndex rdb lod idx =
     (case idx of (x, y, z) \<Rightarrow>
        if lod < length (lod_levels rdb)
        then (case brick_counts (lod_levels rdb ! lod) of (cx, cy, cz) \<Rightarrow>
                x < cx \<and> y < cy \<and> z < cz)
        else False)"

text \<open>
  The scalar types \<open>T\<close> of the vectors \<^verbatim>\<open>std::vector<T>\<close> into which the bricks of a
  dataset are read (\<^verbatim>\<open>float\<close>, \<^verbatim>\<open>double\<close>, \<^verbatim>\<open>int8_t\<close>, \<^verbatim>\<open>uint8_t\<close>, \<^verbatim>\<open>int16_t\<close>,
  \<^verbatim>\<open>uint16_t\<close>, \<^verbatim>\<open>int32_t\<close>, \<^verbatim>\<open>uint32_t\<close>), with \<^verbatim>\<open>sizeof(T)\<close>,
  \<^verbatim>\<open>ctti<T>::is_signed\<close> and \<^verbatim>\<open>is_floating_point<T>::value\<close>. Such a vector is, like a
  brick of a raster block, given by the integers and by the floating-point values it
  holds.
\<close>

datatype voxel_type =
  t_float | t_double | t_int8 | t_uint8 | t_int16 | t_uint16 | t_int32 | t_uint32

fun sizeof :: "voxel_type \<Rightarrow> nat" where
  "sizeof t_float = 4"
| "sizeof t_double = 8"
| "sizeof t_int8 = 1"
| "sizeof t_uint8 = 1"
| "sizeof t_int16 = 2"
| "sizeof t_uint16 = 2"
| "sizeof t_int32 = 4"
| "sizeof t_uint32 = 4"

fun ctti_is_signed :: "voxel_type \<Rightarrow> bool" where
  "ctti_is_signed t_uint8 = False"
| "ctti_is_signed t_uint16 = False"
| "ctti_is_signed t_uint32 = False"
| "ctti_is_signed T = True"

fun is_floating_point :: "voxel_type \<Rightarrow> bool" where
  "is_floating_point t_float = True"
| "is_floating_point t_double = True"
| "is_floating_point T = False"

record voxel_buffer =
  buffer_ints :: "int list"
  buffer_floats :: "real list"

text \<open>
  A dataset (\<^verbatim>\<open>Dataset\<close>, \<^verbatim>\<open>UVFDataset\<close>), as the record of what the sources ask of it.
  \<^verbatim>\<open>GetDomainSize\<close> takes a LOD and a timestep, both with the default 0. \<^verbatim>\<open>GetScale\<close>
  yields doubles. \<^verbatim>\<open>Export\<close> is given the LOD and the name of the file to write, and
  answers whether it succeeded. \<open>Bricks\<close> are the keys of the brick table in the order
  in which the iterators from \<^verbatim>\<open>BricksBegin()\<close> to \<^verbatim>\<open>BricksEnd()\<close> visit them, a key
  being a LOD and a 1D brick index; an iterator into the table is the number of keys
  before it. \<^verbatim>\<open>IndexToVectorKey\<close> turns a key into a LOD and the brick's coordinates.
  \<^verbatim>\<open>GetBrick\<close> reads the brick of a key into a vector of the given scalar type, and
  \<^verbatim>\<open>GetRange\<close> is the range of the data, as \<^verbatim>\<open>ComputeRange()\<close> has left it.
\<close>

record UVFDataset =
  IsOpen :: bool
  GetBitWidth :: nat
  GetComponentCount :: nat
  IsSameEndianness :: bool
  GetIsSigned :: bool
  GetIsFloat :: bool
  GetDomainSize :: "nat \<Rightarrow> nat \<Rightarrow> nat \<times> nat \<times> nat"
  GetScale :: "real \<times> real \<times> real"
  GetBrickOverlapSize :: "nat \<times> nat \<times> nat"
  GetNumberOfTimesteps :: nat
  GetLODLevelCount :: nat
  GetBrickCount :: "nat \<Rightarrow> nat \<Rightarrow> nat \<times> nat \<times> nat"
  Export :: "nat \<Rightarrow> string \<Rightarrow> bool"
  GetFirstRDB :: "RasterDataBlock option"
  Bricks :: "(nat \<times> nat) list"
  IndexToVectorKey :: "nat \<times> nat \<Rightarrow> nat \<times> (nat \<times> nat \<times> nat)"
  GetBrick :: "voxel_type \<Rightarrow> nat \<times> nat \<Rightarrow> voxel_buffer"
  GetRange :: "real \<times> real"

text \<open>The scalar types over which \<^verbatim>\<open>DataMerger\<close> is instantiated.\<close>

datatype prim_type =
    T_float | T_double | T_char | T_short | T_int | T_int64
  | T_uchar | T_ushort | T_uint | T_UINT64

text \<open>
  What a \<^verbatim>\<open>DataMerger\<close> leaves: the answer of \<^verbatim>\<open>IsOK()\<close>, and whether the merged file
  exists afterwards.
\<close>

record merger_outcome =
  IsOK :: bool
  merged_file_exists :: bool

text \<open>
  Everything the modelled functions obtain from outside the sources:
  \<^verbatim>\<open>SysTools::GetFilename\<close> and \<^verbatim>\<open>SysTools::GetExt\<close>; the host's byte order
  (\<^verbatim>\<open>EndianConvert::IsBigEndian()\<close>); the macro \<^verbatim>\<open>BITS_IN_JSAMPLE\<close> of the JPEG library;
  whether a temporary file of a given name can be opened for writing; the RAW-to-UVF
  builder \<^verbatim>\<open>RAWConverter::ConvertRAWDataset\<close>; \<^verbatim>\<open>SysTools::ToString(rand())\<close> for the
  input with a given index; the dataset that the constructor of \<^verbatim>\<open>UVFDataset\<close> yields for
  a file name; the dataset that \<^verbatim>\<open>m_dsFactory->Create\<close> followed by the dynamic cast
  yields (\<open>None\<close> for a null pointer); the \<^verbatim>\<open>DataMerger\<close>; the error code of the
  expression parser for an expression; a default-constructed raster data block; the
  conversion of a \<^verbatim>\<open>double\<close> to a \<^verbatim>\<open>float\<close>, which rounds to the nearest value of the
  narrower format; the vector \<^verbatim>\<open>data\<close> of \<^verbatim>\<open>TypedRead<T>\<close> after
  \<^verbatim>\<open>data.resize(tmpdata.size() / (width/8))\<close> and the call of \<^verbatim>\<open>interpolate\<close> that
  expands \<^verbatim>\<open>tmpdata\<close> into it, given the scalar type of \<^verbatim>\<open>tmpdata\<close>, the type \<open>T\<close>,
  the width, \<^verbatim>\<open>tmpdata\<close> and the range; and the output vector of
  \<^verbatim>\<open>tuvok::expression::evaluate\<close> for the tree of a parsed expression, given as the
  expression, and the input vectors.
\<close>

record environment =
  GetFilename :: "string \<Rightarrow> string"
  GetExt :: "string \<Rightarrow> string"
  IsBigEndian :: bool
  BITS_IN_JSAMPLE :: nat
  temp_file_opens :: "string \<Rightarrow> bool"
  ConvertRAWDataset :: "raw_args \<Rightarrow> bool"
  ToString_rand :: "nat \<Rightarrow> string"
  UVFDataset_ctor :: "string \<Rightarrow> UVFDataset"
  Create :: "string \<Rightarrow> UVFDataset option"
  DataMerger :: "prim_type \<Rightarrow> MergeDataset list \<Rightarrow> string \<Rightarrow> nat \<Rightarrow> bool \<Rightarrow> merger_outcome"
  yyparse :: "string \<Rightarrow> int"
  new_RasterDataBlock :: RasterDataBlock
  FLOAT_of_double :: "real \<Rightarrow> real"
  interpolate ::
    "voxel_type \<Rightarrow> voxel_type \<Rightarrow> nat \<Rightarrow> voxel_buffer \<Rightarrow> real \<times> real \<Rightarrow> voxel_buffer"
  expression_evaluate :: "string \<Rightarrow> voxel_buffer list \<Rightarrow> voxel_buffer"

section \<open>Converting a file stack: the intermediate raw file\<close>

text \<open>
  \<^verbatim>\<open>IOManager::ConvertDataset(FileStackInfo*, ...)\<close> concatenates the payloads of the
  stack's elements into one temporary raw file and hands that file to
  \<^verbatim>\<open>RAWConverter::ConvertRAWDataset\<close>.
\<close>

record stack_element =
  m_strFileName :: string
  GetData :: "byte list"  \<comment> \<open>the payload that \<^verbatim>\<open>GetData(vData)\<close> stores into the buffer\<close>
  element_GetComponentCount :: nat  \<comment> \<open>\<^verbatim>\<open>GetComponentCount()\<close> of the element\<close>
  GetOffsetToData :: nat
  jpeg_valid :: bool  \<comment> \<open>\<^verbatim>\<open>tuvok::JPEG(file, offset).valid()\<close>\<close>
  jpeg_data :: "byte list"  \<comment> \<open>\<^verbatim>\<open>jpg.data()\<close>, of length \<^verbatim>\<open>jpg.size()\<close>\<close>

text \<open>
  Modelled from the spec: the classes of the stack elements are not among the sources.
  The spec gives an element an operation that yields a flat byte buffer;
  \<^verbatim>\<open>GetDataSize()\<close> is the number of bytes of that buffer.
\<close>

definition GetDataSize :: "stack_element \<Rightarrow> nat" where
  "GetDataSize e = length (GetData e)"

record FileStackInfo =
  m_strFileType :: string
  m_Elements :: "stack_element list"
  m_ivSize :: "nat \<times> nat \<times> nat"
  m_fvfAspect :: "real \<times> real \<times> real"
  m_iAllocated :: nat
  m_iStored :: nat
  m_iComponentCount :: nat
  m_bIsBigEndian :: bool
  m_bIsJPEGEncoded :: bool
  m_strDesc :: string

datatype stack_error =
    TempFileNotCreated  \<comment> \<open>\<^verbatim>\<open>fs.fail()\<close>: returns false\<close>
  | InvalidJPEG  \<comment> \<open>\<^verbatim>\<open>!jpg.valid()\<close>: returns false\<close>
  | BufferOverrun  \<comment> \<open>the decoded JPEG is longer than the buffer it is copied into\<close>
  | NoElements  \<comment> \<open>\<^verbatim>\<open>m_Elements[0]\<close> of an empty stack\<close>
  | UnknownStackType  \<comment> \<open>neither "DICOM" nor "IMAGE": returns false\<close>

text \<open>\<^verbatim>\<open>vData.resize(n)\<close> keeps a prefix and fills up with zero bytes.\<close>

definition resize_vec :: "nat \<Rightarrow> byte list \<Rightarrow> byte list" where
  "resize_vec n v = take n v @ replicate (n - length v) 0"

text \<open>
  The two byte-swapping loops run over \<^verbatim>\<open>iDataSize/2\<close> shorts and \<^verbatim>\<open>iDataSize/4\<close>
  floats; bytes beyond the last whole group stay as they are.
\<close>

fun swap16 :: "byte list \<Rightarrow> byte list" where
  "swap16 (a # b # rest) = b # a # swap16 rest"
| "swap16 rest = rest"

fun swap32 :: "byte list \<Rightarrow> byte list" where
  "swap32 (a # b # c # d # rest) = d # c # b # a # swap32 rest"
| "swap32 rest = rest"

definition endian_swap :: "nat \<Rightarrow> byte list \<Rightarrow> byte list" where
  "endian_swap allocated v =
     (if allocated = 8 then v
      else if allocated = 16 then swap16 v
      else if allocated = 32 then swap32 v
      else v)"

text \<open>
  The padding loop: \<^verbatim>\<open>iDataSize/3\<close> groups, each \<^verbatim>\<open>(r,g,b)\<close> followed by 255; the
  new buffer has \<^verbatim>\<open>(iDataSize/3)*4\<close> bytes, so an incomplete last triple is dropped.
\<close>

fun rgb_to_rgba :: "byte list \<Rightarrow> byte list" where
  "rgb_to_rgba (r # g # b # rest) = r # g # b # 255 # rgb_to_rgba rest"
| "rgb_to_rgba rest = []"

text \<open>
  The state of the loop over the elements of a DICOM stack: the two fields of the stack
  that the loop assigns to, the buffer \<^verbatim>\<open>vData\<close> (declared outside the loop), and what
  has been written to the temporary file.
\<close>

record dicom_loop =
  cur_iAllocated :: nat
  cur_iComponentCount :: nat
  vData :: "byte list"
  written :: "byte list"

definition dicom_element ::
  "environment \<Rightarrow> FileStackInfo \<Rightarrow> stack_element \<Rightarrow> dicom_loop \<Rightarrow> stack_error + dicom_loop" where
  "dicom_element env stack e st =
     (let iDataSize = GetDataSize e;
          v0 = resize_vec iDataSize (vData st);
          loaded =
            (if m_bIsJPEGEncoded stack then
               (if \<not> jpeg_valid e then Inl InvalidJPEG
                else if length (jpeg_data e) > iDataSize then Inl BufferOverrun
                else Inr (jpeg_data e @ drop (length (jpeg_data e)) v0, BITS_IN_JSAMPLE env))
             else Inr (GetData e, cur_iAllocated st))
      in case loaded of
           Inl err \<Rightarrow> Inl err
         | Inr (v1, allocated) \<Rightarrow>
             (let v2 = (if m_bIsBigEndian stack \<noteq> IsBigEndian env
                        then endian_swap allocated v1 else v1)
              in if cur_iComponentCount st = 3
                 then Inr \<lparr> cur_iAllocated = allocated, cur_iComponentCount = 4,
                            vData = v2, written = written st @ rgb_to_rgba v2 \<rparr>
                 else Inr \<lparr> cur_iAllocated = allocated,
                            cur_iComponentCount = cur_iComponentCount st,
                            vData = v2, written = written st @ v2 \<rparr>))"

fun dicom_elements ::
  "environment \<Rightarrow> FileStackInfo \<Rightarrow> stack_element list \<Rightarrow> dicom_loop \<Rightarrow>
     stack_error + dicom_loop" where
  "dicom_elements env stack [] st = Inr st"
| "dicom_elements env stack (e # es) st =
     (case dicom_element env stack e st of
        Inl err \<Rightarrow> Inl err
      | Inr st' \<Rightarrow> dicom_elements env stack es st')"

text \<open>
  The result of a conversion that reached the builder: the bytes of the temporary raw
  file, the builder's arguments, and the builder's answer, which the function returns
  after removing the temporary file. The call for an image stack leaves the last
  arguments of the builder to their defaults; the model records that no quantisation
  is asked for.
\<close>

record stack_conversion =
  raw_file :: "byte list"
  builder_args :: raw_args
  builder_result :: bool

definition ConvertDataset_stack ::
  "environment \<Rightarrow> FileStackInfo \<Rightarrow> string \<Rightarrow> string \<Rightarrow> UINT64 \<Rightarrow> UINT64 \<Rightarrow> bool \<Rightarrow>
     stack_error + stack_conversion" where
  "ConvertDataset_stack env pStack strTargetFilename strTempDir iMaxBrickSize iBrickOverlap
       bQuantizeTo8Bit =
     (if m_strFileType pStack = ''DICOM'' then
        (let strTempMergeFilename = strTempDir @ GetFilename env strTargetFilename @ ''~'' in
         if \<not> temp_file_opens env strTempMergeFilename then Inl TempFileNotCreated
         else
           case dicom_elements env pStack (m_Elements pStack)
                  \<lparr> cur_iAllocated = m_iAllocated pStack,
                    cur_iComponentCount = m_iComponentCount pStack,
                    vData = [], written = [] \<rparr> of
             Inl err \<Rightarrow> Inl err
           | Inr st \<Rightarrow>
               (if m_Elements pStack = [] then Inl NoElements
                else
                  (let (sx, sy, sz) = m_ivSize pStack;
                       args = \<lparr> arg_strFilename = strTempMergeFilename,
                                arg_strTargetFilename = strTargetFilename,
                                arg_strTempDir = strTempDir,
                                arg_iHeaderSkip = 0,
                                arg_iComponentSize = cur_iAllocated st,
                                arg_iComponentCount = cur_iComponentCount st,
                                arg_timesteps = 1,
                                arg_bConvertEndianness =
                                  (m_bIsBigEndian pStack \<noteq> IsBigEndian env),
                                arg_bSigned = (cur_iAllocated st \<ge> 32),
                                arg_bIsFloat = False,
                                arg_vVolumeSize = (sx, sy, sz * length (m_Elements pStack)),
                                arg_vVolumeAspect = m_fvfAspect pStack,
                                arg_strDesc = ''DICOM stack'',
                                arg_strSource =
                                  GetFilename env (m_strFileName (hd (m_Elements pStack)))
                                  @ '' to '' @
                                  GetFilename env (m_strFileName (last (m_Elements pStack))),
                                arg_iTargetBrickSize = iMaxBrickSize,
                                arg_iTargetBrickOverlap = iBrickOverlap,
                                arg_bQuantizeTo8Bit = bQuantizeTo8Bit \<rparr>
                   in Inr \<lparr> raw_file = written st, builder_args = args,
                            builder_result = ConvertRAWDataset env args \<rparr>)))
      else if m_strFileType pStack = ''IMAGE'' then
        (let strTempMergeFilename = strTempDir @ GetFilename env strTargetFilename @ ''~'' in
         if \<not> temp_file_opens env strTempMergeFilename then Inl TempFileNotCreated
         else if m_Elements pStack = [] then Inl NoElements
         else
           (let contents = concat (map GetData (m_Elements pStack));
                (sx, sy, sz) = m_ivSize pStack;
                args = \<lparr> arg_strFilename = strTempMergeFilename,
                         arg_strTargetFilename = strTargetFilename,
                         arg_strTempDir = strTempDir,
                         arg_iHeaderSkip = 0,
                         arg_iComponentSize = m_iAllocated pStack,
                         arg_iComponentCount =
                           element_GetComponentCount (hd (m_Elements pStack)),
                         arg_timesteps = 1,
                         arg_bConvertEndianness =
                           (m_bIsBigEndian pStack \<noteq> IsBigEndian env),
                         arg_bSigned = (m_iComponentCount pStack \<ge> 32),
                         arg_bIsFloat = False,
                         arg_vVolumeSize = (sx, sy, sz * length (m_Elements pStack)),
                         arg_vVolumeAspect = m_fvfAspect pStack,
                         arg_strDesc = ''Image stack'',
                         arg_strSource =
                           GetFilename env (m_strFileName (hd (m_Elements pStack)))
                           @ '' to '' @
                           GetFilename env (m_strFileName (last (m_Elements pStack))),
                         arg_iTargetBrickSize = iMaxBrickSize,
                         arg_iTargetBrickOverlap = iBrickOverlap,
                         arg_bQuantizeTo8Bit = False \<rparr>
            in Inr \<lparr> raw_file = contents, builder_args = args,
                     builder_result = ConvertRAWDataset env args \<rparr>))
      else Inl UnknownStackType)"

section \<open>The stats builder: per-brick minimum and maximum\<close>

text \<open>
  \<^verbatim>\<open>DBL_MAX\<close> and \<^verbatim>\<open>FLT_MAX\<close>, the largest finite values of the IEEE double and single
  formats. Both are integers. A \<^verbatim>\<open>double\<close> is modelled by the real number it holds;
  this is exact for every value that occurs below (integers of at most 32 bits, finite
  floating-point voxels, and plus or minus \<^verbatim>\<open>DBL_MAX\<close>), and \<^verbatim>\<open>std::min\<close> and
  \<^verbatim>\<open>std::max\<close> of finite values are the minimum and maximum of the reals.
\<close>

definition DBL_MAX :: real where
  "DBL_MAX = (2 ^ 53 - 1) * 2 ^ 971"

definition FLT_MAX :: real where
  "FLT_MAX = (2 ^ 24 - 1) * 2 ^ 104"

text \<open>\<^verbatim>\<open>DOUBLEVECTOR4\<close>, with the components \<open>x\<close>, \<open>y\<close>, \<open>z\<close>, \<open>w\<close>.\<close>

type_synonym DOUBLEVECTOR4 = "real \<times> real \<times> real \<times> real"

definition vec_x :: "DOUBLEVECTOR4 \<Rightarrow> real" where "vec_x v = fst v"
definition vec_y :: "DOUBLEVECTOR4 \<Rightarrow> real" where "vec_y v = fst (snd v)"

text \<open>
  \<^verbatim>\<open>std::min(a, b)\<close> is \<^verbatim>\<open>(b < a) ? b : a\<close> and \<^verbatim>\<open>std::max(a, b)\<close> is
  \<^verbatim>\<open>(a < b) ? b : a\<close>, for the order \<open>lt\<close> of the type.
\<close>

definition std_min :: "('a \<Rightarrow> 'a \<Rightarrow> bool) \<Rightarrow> 'a \<Rightarrow> 'a \<Rightarrow> 'a" where
  "std_min lt a b = (if lt b a then b else a)"

definition std_max :: "('a \<Rightarrow> 'a \<Rightarrow> bool) \<Rightarrow> 'a \<Rightarrow> 'a \<Rightarrow> 'a" where
  "std_max lt a b = (if lt a b then b else a)"

text \<open>
  What the template \<^verbatim>\<open>minmax_input<T>\<close> uses of its scalar type \<open>T\<close>: the order,
  \<^verbatim>\<open>std::numeric_limits<T>::max()\<close>, the negation of a value converted back to \<open>T\<close>,
  and the conversion to \<^verbatim>\<open>double\<close>.
\<close>

record 'a scalar_type =
  lt :: "'a \<Rightarrow> 'a \<Rightarrow> bool"
  numeric_limits_max :: 'a
  negated :: "'a \<Rightarrow> 'a"
  to_double :: "'a \<Rightarrow> real"

text \<open>
  The unsigned integer types of \<open>n\<close> bits are the \<open>n\<close>-bit words in their unsigned
  order; the largest value has all bits set. Negating it and converting the result
  back to the type is the negation of the word: for \<^verbatim>\<open>uint8_t\<close>, \<open>-255\<close> becomes
  \<open>1\<close>. The signed integer types are the words in their signed order, with the largest
  value \<open>2^(n-1) - 1\<close>. The floating-point types are the reals.
\<close>

definition unsigned_type :: "'a::len word scalar_type" where
  "unsigned_type =
     \<lparr> lt = (\<lambda>a b. a < b), numeric_limits_max = - 1,
       negated = (\<lambda>a. - a), to_double = (\<lambda>a. real_of_int (uint a)) \<rparr>"

definition signed_type :: "'a::len word scalar_type" where
  "signed_type =
     \<lparr> lt = (\<lambda>a b. a <s b), numeric_limits_max = 2 ^ (LENGTH('a) - 1) - 1,
       negated = (\<lambda>a. - a), to_double = (\<lambda>a. real_of_int (sint a)) \<rparr>"

definition float_type :: "real scalar_type" where
  "float_type =
     \<lparr> lt = (\<lambda>a b. a < b), numeric_limits_max = FLT_MAX,
       negated = (\<lambda>a. - a), to_double = (\<lambda>a. a) \<rparr>"

definition double_type :: "real scalar_type" where
  "double_type =
     \<lparr> lt = (\<lambda>a b. a < b), numeric_limits_max = DBL_MAX,
       negated = (\<lambda>a. - a), to_double = (\<lambda>a. a) \<rparr>"

text \<open>The loop of \<^verbatim>\<open>minmax_input\<close> and its initial pair.\<close>

fun minmax_loop :: "('a \<Rightarrow> 'a \<Rightarrow> bool) \<Rightarrow> 'a list \<Rightarrow> 'a \<times> 'a \<Rightarrow> 'a \<times> 'a" where
  "minmax_loop less_T [] retval = retval"
| "minmax_loop less_T (x # xs) retval =
     minmax_loop less_T xs (std_min less_T x (fst retval), std_max less_T x (snd retval))"

definition minmax_input :: "'a scalar_type \<Rightarrow> 'a list \<Rightarrow> 'a \<times> 'a" where
  "minmax_input T data =
     minmax_loop (lt T) data (numeric_limits_max T, negated T (numeric_limits_max T))"

definition get_brick_minmax :: "'a scalar_type \<Rightarrow> 'a list \<Rightarrow> DOUBLEVECTOR4" where
  "get_brick_minmax T data =
     (let mm = minmax_input T data
      in (to_double T (fst mm), to_double T (snd mm), - DBL_MAX, DBL_MAX))"

datatype stats_error =
    AssertionFailed  \<comment> \<open>an \<^verbatim>\<open>assert\<close> of the source does not hold\<close>
  | InvalidLOD  \<comment> \<open>the brick counts of a LOD the block does not have\<close>
  | DivisionByZero  \<comment> \<open>a brick count of zero in \<^verbatim>\<open>NDBrickIndex\<close>\<close>

text \<open>\<^verbatim>\<open>NDBrickIndex\<close>: the 1D brick index as \<open>(x, y, z)\<close>.\<close>

definition NDBrickIndex :: "RasterDataBlock \<Rightarrow> nat \<Rightarrow> nat \<Rightarrow> stats_error + nat \<times> nat \<times> nat" where
  "NDBrickIndex rdb LoD b =
     (if \<not> LoD < length (lod_levels rdb) then Inl InvalidLOD
      else
        case brick_counts (lod_levels rdb ! LoD) of (c0, c1, c2) \<Rightarrow>
          if c0 * c1 = 0 then Inl DivisionByZero
          else
            (let z = b div (c0 * c1);
                 brick = b mod (c0 * c1);
                 y = brick div c0;
                 x = brick mod c0
             in Inr (x, y, z)))"

text \<open>
  The type dispatch in the body of the inner loop of \<^verbatim>\<open>MaxMin\<close>, with the source's
  order of the cases. \<^verbatim>\<open>is_float\<close> is the mantissa size converted to \<^verbatim>\<open>bool\<close>. The
  64-bit integer cases and the last case end in \<^verbatim>\<open>assert(1 == 0)\<close>. Assertions are
  taken to be compiled in: one that does not hold ends the computation.
\<close>

definition brick_entry ::
  "RasterDataBlock \<Rightarrow> nat \<Rightarrow> nat \<times> nat \<times> nat \<Rightarrow> stats_error + DOUBLEVECTOR4" where
  "brick_entry rdb lod b_idx =
     (let is_float = (ulElementMantissa rdb \<noteq> 0);
          is_signed = bSignedElement rdb;
          bit_width = ulElementBitSize rdb;
          ints = brick_ints (lod_levels rdb ! lod) b_idx;
          floats = brick_floats (lod_levels rdb ! lod) b_idx
      in
        if is_float \<and> bit_width = 32 then
          (if is_signed then Inr (get_brick_minmax float_type floats) else Inl AssertionFailed)
        else if is_float \<and> bit_width = 64 then
          (if is_signed then Inr (get_brick_minmax double_type floats) else Inl AssertionFailed)
        else if is_signed \<and> 8 = bit_width then
          Inr (get_brick_minmax (signed_type :: 8 word scalar_type) (map word_of_int ints))
        else if \<not> is_signed \<and> 8 = bit_width then
          Inr (get_brick_minmax (unsigned_type :: 8 word scalar_type) (map word_of_int ints))
        else if is_signed \<and> 16 = bit_width then
          Inr (get_brick_minmax (signed_type :: 16 word scalar_type) (map word_of_int ints))
        else if \<not> is_signed \<and> 16 = bit_width then
          Inr (get_brick_minmax (unsigned_type :: 16 word scalar_type) (map word_of_int ints))
        else if is_signed \<and> 32 = bit_width then
          Inr (get_brick_minmax (signed_type :: 32 word scalar_type) (map word_of_int ints))
        else if \<not> is_signed \<and> 32 = bit_width then
          Inr (get_brick_minmax (unsigned_type :: 32 word scalar_type) (map word_of_int ints))
        else Inl AssertionFailed)"

text \<open>
  The inner \<^verbatim>\<open>do ... while\<close> loop of \<^verbatim>\<open>MaxMin\<close> over the bricks of one LOD, and the
  outer one over the LODs. Each body runs once before its condition is tested.
\<close>

definition bricks_in_lod :: "RasterDataBlock \<Rightarrow> nat \<Rightarrow> nat" where
  "bricks_in_lod rdb lod =
     (case brick_counts (lod_levels rdb ! lod) of (c0, c1, c2) \<Rightarrow> c0 * c1 * c2)"

function MaxMin_bricks ::
  "RasterDataBlock \<Rightarrow> nat \<Rightarrow> nat \<Rightarrow> DOUBLEVECTOR4 list \<Rightarrow> stats_error + DOUBLEVECTOR4 list" where
  "MaxMin_bricks rdb lod brick mm =
     (case NDBrickIndex rdb lod brick of
        Inl err \<Rightarrow> Inl err
      | Inr b_idx \<Rightarrow>
          if \<not> ValidBrickIndex rdb lod b_idx then Inl AssertionFailed
          else
            case brick_entry rdb lod b_idx of
              Inl err \<Rightarrow> Inl err
            | Inr v \<Rightarrow>
                (case NDBrickIndex rdb lod (Suc brick) of
                   Inl err \<Rightarrow> Inl err
                 | Inr next_idx \<Rightarrow>
                     if ValidBrickIndex rdb lod next_idx
                     then MaxMin_bricks rdb lod (Suc brick) (mm @ [v])
                     else Inr (mm @ [v])))"
  by pat_completeness auto

text \<open>
  The inner loop terminates: a valid index of the next brick means that the brick's
  number is below the number of bricks of the LOD.
\<close>

lemma valid_brick_number:
  assumes "NDBrickIndex rdb lod b = Inr idx" and "ValidBrickIndex rdb lod idx"
  shows "b < bricks_in_lod rdb lod"
proof -
  obtain c0 c1 c2 where c: "brick_counts (lod_levels rdb ! lod) = (c0, c1, c2)"
    by (cases "brick_counts (lod_levels rdb ! lod)") auto
  from assms(1) c have lod: "lod < length (lod_levels rdb)" and pos: "c0 * c1 \<noteq> 0"
    and idx: "idx = (b mod (c0 * c1) mod c0, b mod (c0 * c1) div c0, b div (c0 * c1))"
    by (auto simp: NDBrickIndex_def Let_def split: if_splits)
  from assms(2) idx lod c have "b div (c0 * c1) < c2"
    by (simp add: ValidBrickIndex_def)
  with pos have "b < c2 * (c0 * c1)"
    by (simp add: div_less_iff_less_mult)
  then show ?thesis by (simp add: bricks_in_lod_def c mult.commute)
qed

termination MaxMin_bricks
  by (relation "measure (\<lambda>(rdb, lod, brick, mm). bricks_in_lod rdb lod - brick)")
     (auto dest: valid_brick_number)

function MaxMin_lods ::
  "RasterDataBlock \<Rightarrow> nat \<Rightarrow> DOUBLEVECTOR4 list \<Rightarrow> stats_error + DOUBLEVECTOR4 list" where
  "MaxMin_lods rdb lod mm =
     (case MaxMin_bricks rdb lod 0 mm of
        Inl err \<Rightarrow> Inl err
      | Inr mm' \<Rightarrow>
          if ValidLOD rdb (Suc lod) then MaxMin_lods rdb (Suc lod) mm' else Inr mm')"
  by pat_completeness auto
termination
  by (relation "measure (\<lambda>(rdb, lod, mm). length (lod_levels rdb) - lod)")
     (auto simp: ValidLOD_def)

definition MaxMin :: "RasterDataBlock \<Rightarrow> stats_error + DOUBLEVECTOR4 list" where
  "MaxMin rdb = MaxMin_lods rdb 0 []"

text \<open>
  \<^verbatim>\<open>CreateUVFFromRDB\<close>: the loop over the brick statistics keeps \<^verbatim>\<open>max_val\<close>, which
  starts as \<^verbatim>\<open>DBL_MAX\<close>, and merges each entry into the min-max data block; the 2D
  histogram is then computed with \<^verbatim>\<open>max_val\<close> as its maximum. The result is the list
  of the entries merged into the min-max block and the maximum passed to
  \<^verbatim>\<open>Histogram2DDataBlock::Compute\<close>. A failed assertion in \<^verbatim>\<open>MaxMin\<close> ends the
  function.
\<close>

fun track_max :: "DOUBLEVECTOR4 list \<Rightarrow> real \<Rightarrow> real" where
  "track_max [] max_val = max_val"
| "track_max (i # rest) max_val = track_max rest (max max_val (vec_y i))"

record uvf_blocks =
  mmdb :: "DOUBLEVECTOR4 list"
  hist2d_max_val :: real

definition CreateUVFFromRDB :: "RasterDataBlock \<Rightarrow> stats_error + uvf_blocks" where
  "CreateUVFFromRDB rdb =
     (case MaxMin rdb of
        Inl err \<Rightarrow> Inl err
      | Inr minmax \<Rightarrow> Inr \<lparr> mmdb = minmax, hist2d_max_val = track_max minmax DBL_MAX \<rparr>)"

section \<open>The expression evaluator\<close>

text \<open>
  \<^verbatim>\<open>MergeableDatasets::operator()\<close>. The two nested loops run over the timesteps and
  the levels of detail; the model runs them over the lists of their index values. The
  domain sizes are compared through \<^verbatim>\<open>GetDomainSize()\<close> with no argument, that is at
  LOD 0 and timestep 0, in every iteration.
\<close>

fun mergeable_levels :: "UVFDataset \<Rightarrow> UVFDataset \<Rightarrow> nat \<Rightarrow> nat list \<Rightarrow> bool" where
  "mergeable_levels a b ts [] = True"
| "mergeable_levels a b ts (level # levels) =
     (if GetDomainSize a 0 0 \<noteq> GetDomainSize b 0 0 \<or>
         GetBrickCount a level ts \<noteq> GetBrickCount b level ts
      then False
      else mergeable_levels a b ts levels)"

fun mergeable_timesteps :: "UVFDataset \<Rightarrow> UVFDataset \<Rightarrow> nat \<Rightarrow> nat list \<Rightarrow> bool" where
  "mergeable_timesteps a b LoDs [] = True"
| "mergeable_timesteps a b LoDs (ts # tss) =
     (if mergeable_levels a b ts [0..<LoDs]
      then mergeable_timesteps a b LoDs tss
      else False)"

definition MergeableDatasets :: "UVFDataset \<Rightarrow> UVFDataset \<Rightarrow> bool" where
  "MergeableDatasets a b =
     (if GetComponentCount a \<noteq> GetComponentCount b \<or>
         GetBrickOverlapSize a \<noteq> GetBrickOverlapSize b
      then False
      else if GetNumberOfTimesteps a \<noteq> GetNumberOfTimesteps b then False
      else if GetLODLevelCount a \<noteq> GetLODLevelCount b then False
      else mergeable_timesteps a b (GetLODLevelCount a) [0..<GetNumberOfTimesteps a])"

text \<open>
  \<^verbatim>\<open>IdentifyType\<close>: the loop over the datasets, from \<open>(0, false, false)\<close>. The maximum
  of two booleans is taken in the order \<open>false < true\<close>, as \<^verbatim>\<open>std::max\<close> does.
\<close>

fun IdentifyType_loop :: "UVFDataset list \<Rightarrow> nat \<times> bool \<times> bool \<Rightarrow> nat \<times> bool \<times> bool" where
  "IdentifyType_loop [] (bit_width, is_float, is_signed) = (bit_width, is_float, is_signed)"
| "IdentifyType_loop (u # uvf) (bit_width, is_float, is_signed) =
     IdentifyType_loop uvf
       (max bit_width (GetBitWidth u), max is_float (GetIsFloat u), max is_signed (GetIsSigned u))"

definition IdentifyType :: "UVFDataset list \<Rightarrow> nat \<times> bool \<times> bool" where
  "IdentifyType uvf = IdentifyType_loop uvf (0, False, False)"

text \<open>
  Modelled from the spec: \<^verbatim>\<open>RasterDataBlock::SetTypeToUShort\<close> is not among the
  sources. The spec calls the type it sets 16-bit unsigned: the element has 16 bits and
  is not signed.
\<close>

definition SetTypeToUShort :: "RasterDataBlock \<Rightarrow> RasterDataBlock" where
  "SetTypeToUShort rdb = rdb\<lparr>ulElementBitSize := 16, bSignedElement := False\<rparr>"

text \<open>
  Modelled from the spec: the assignment operator of \<^verbatim>\<open>RasterDataBlock\<close> is not among
  the sources. The source sets the type of the output block and then assigns the first
  raster block of the first volume to it (\<^verbatim>\<open>*rdb = *rdb1\<close>), under the comment "Copy
  the other basic info from the first input volume"; the spec has the implementation
  emit 16-bit unsigned data. So the assignment gives the left-hand side what the
  right-hand side holds other than the type of the element: the bit size, the mantissa
  and the signedness stay those of the left-hand side.
\<close>

definition assign :: "RasterDataBlock \<Rightarrow> RasterDataBlock \<Rightarrow> RasterDataBlock" where
  "assign rdb other =
     other\<lparr>ulElementBitSize := ulElementBitSize rdb,
           ulElementMantissa := ulElementMantissa rdb,
           bSignedElement := bSignedElement rdb\<rparr>"

text \<open>
  Modelled from the spec: \<^verbatim>\<open>RasterDataBlock::ResetFile\<close> and
  \<^verbatim>\<open>RasterDataBlock::SetData\<close> are not among the sources. The spec has the output
  buffer of every step "written to the output raster block under the same brick key",
  the output being assembled from nothing. \<^verbatim>\<open>ResetFile\<close> gives the block a newly
  created file: no brick holds a voxel. \<^verbatim>\<open>SetData\<close> makes the buffer the voxels of
  the brick; when the brick index is not valid it fails and leaves the block as it is.
\<close>

definition ResetFile :: "RasterDataBlock \<Rightarrow> RasterDataBlock" where
  "ResetFile rdb =
     rdb\<lparr>lod_levels :=
           map (\<lambda>l. l\<lparr>brick_ints := (\<lambda>idx. []), brick_floats := (\<lambda>idx. [])\<rparr>)
             (lod_levels rdb)\<rparr>"

definition SetData ::
  "RasterDataBlock \<Rightarrow> voxel_buffer \<Rightarrow> nat \<Rightarrow> nat \<times> nat \<times> nat \<Rightarrow> RasterDataBlock option" where
  "SetData rdb pData iLOD vBrick =
     (if ValidBrickIndex rdb iLOD vBrick
      then Some (rdb\<lparr>lod_levels := (lod_levels rdb)
                  [iLOD := (lod_levels rdb ! iLOD)
                     \<lparr>brick_ints := (brick_ints (lod_levels rdb ! iLOD))(vBrick := buffer_ints pData),
                      brick_floats :=
                        (brick_floats (lod_levels rdb ! iLOD))(vBrick := buffer_floats pData)\<rparr>]\<rparr>)
      else None)"

text \<open>
  The ways in which the evaluator ends without an output. A failed assertion ends the
  program; so does, in the model, the use of an iterator that has reached
  \<^verbatim>\<open>BricksEnd()\<close>, which the language leaves undefined.
\<close>

datatype eval_error =
    NoVolumes  \<comment> \<open>\<^verbatim>\<open>assert(!volumes.empty())\<close>\<close>
  | SyntaxError  \<comment> \<open>\<^verbatim>\<open>tuvok::expression::SyntaxError\<close>\<close>
  | NullDataset  \<comment> \<open>\<^verbatim>\<open>ComputeRange()\<close> through a null pointer\<close>
  | UnmergeableDatasets  \<comment> \<open>\<^verbatim>\<open>tuvok::io::UnmergeableDatasets\<close>\<close>
  | NoRasterBlock  \<comment> \<open>\<^verbatim>\<open>assert(rdb1)\<close>\<close>
  | UnsignedFloat  \<comment> \<open>the assertions of \<^verbatim>\<open>TypedRead\<close>: floating-point data is signed\<close>
  | IteratorPastEnd  \<comment> \<open>an iterator at \<^verbatim>\<open>BricksEnd()\<close> is dereferenced or advanced\<close>
  | StatsFailed stats_error  \<comment> \<open>a failed assertion in \<^verbatim>\<open>MaxMin\<close>\<close>

text \<open>The loop that opens the volumes.\<close>

fun open_volumes :: "environment \<Rightarrow> string list \<Rightarrow> UVFDataset list \<Rightarrow> eval_error + UVFDataset list" where
  "open_volumes env [] uvf = Inr uvf"
| "open_volumes env (f # fs) uvf =
     (case Create env f of
        None \<Rightarrow> Inl NullDataset
      | Some u \<Rightarrow> open_volumes env fs (uvf @ [u]))"

text \<open>The loop that compares every dataset with the first one.\<close>

fun all_mergeable :: "UVFDataset \<Rightarrow> UVFDataset list \<Rightarrow> bool" where
  "all_mergeable first [] = True"
| "all_mergeable first (u # us) =
     (if \<not> MergeableDatasets first u then False else all_mergeable first us)"

text \<open>
  \<^verbatim>\<open>TypedRead<T>\<close> reads the brick of a key as a vector of \<open>T\<close>. When the dataset stores
  its data as \<open>T\<close> the brick is read as it is. Otherwise it is read as a vector of the
  type the dataset stores, and expanded. The result is the vector \<^verbatim>\<open>data\<close>, which is
  empty when the function is called, and the errors reported with \<^verbatim>\<open>T_ERROR\<close>
  (informational messages are left out).
\<close>

definition TypedRead ::
  "environment \<Rightarrow> voxel_type \<Rightarrow> UVFDataset \<Rightarrow> nat \<times> nat \<Rightarrow>
     eval_error + voxel_buffer \<times> string list" where
  "TypedRead env T ds key =
     (let width = GetBitWidth ds;
          is_signed = GetIsSigned ds;
          is_float = GetIsFloat ds;
          dest_width = sizeof T * 8;
          dest_signed = ctti_is_signed T;
          dest_float = is_floating_point T
      in
        if is_float \<and> \<not> is_signed then Inl UnsignedFloat
        else if dest_float \<and> \<not> dest_signed then Inl UnsignedFloat
        else if dest_width = width \<and> dest_signed = is_signed \<and> dest_float = is_float
        then Inr (GetBrick ds T key, [])
        else
          (let range = GetRange ds in
           if is_float \<and> width = 32
           then Inr (interpolate env t_float T width (GetBrick ds t_float key) range, [])
           else if is_float \<and> width = 64
           then Inr (interpolate env t_double T width (GetBrick ds t_double key) range, [])
           else if is_signed \<and> 8 = width
           then Inr (interpolate env t_int8 T width (GetBrick ds t_int8 key) range, [])
           else if \<not> is_signed \<and> 8 = width
           then Inr (interpolate env t_uint8 T width (GetBrick ds t_uint8 key) range, [])
           else if is_signed \<and> 16 = width
           then Inr (interpolate env t_int16 T width (GetBrick ds t_int16 key) range, [])
           else if \<not> is_signed \<and> 16 = width
           then Inr (interpolate env t_uint16 T width (GetBrick ds t_uint16 key) range, [])
           else if is_signed \<and> 32 = width
           then Inr (interpolate env t_int32 T width (GetBrick ds t_int32 key) range, [])
           else if \<not> is_signed \<and> 32 = width
           then Inr (interpolate env t_uint32 T width (GetBrick ds t_uint32 key) range, [])
           else Inr (\<lparr> buffer_ints = [], buffer_floats = [] \<rparr>,
                     [''Unhandled data type!  Width: %u, Signed: %d, Float: %d''])))"

text \<open>
  \<^verbatim>\<open>ReadAndEvalBrick<T>\<close>. Its loop reads, for every volume, the brick at which the
  volume's iterator stands. The expression is evaluated on the vectors read, and the
  output is written to the block under the key of the first volume's brick. The state
  that is passed along is the output block and the errors reported so far.
\<close>

fun read_bricks ::
  "environment \<Rightarrow> voxel_type \<Rightarrow> UVFDataset list \<Rightarrow> nat list \<Rightarrow>
     eval_error + voxel_buffer list \<times> string list" where
  "read_bricks env T [] iters = Inr ([], [])"
| "read_bricks env T (u # uvfs) [] = Inl IteratorPastEnd"
| "read_bricks env T (u # uvfs) (it # iters) =
     (if it < length (Bricks u) then
        (case TypedRead env T u (Bricks u ! it) of
           Inl err \<Rightarrow> Inl err
         | Inr (data, errs) \<Rightarrow>
             (case read_bricks env T uvfs iters of
                Inl err \<Rightarrow> Inl err
              | Inr (involumes, errs') \<Rightarrow> Inr (data # involumes, errs @ errs')))
      else Inl IteratorPastEnd)"

definition ReadAndEvalBrick ::
  "environment \<Rightarrow> voxel_type \<Rightarrow> string \<Rightarrow> UVFDataset list \<Rightarrow> nat list \<Rightarrow>
     RasterDataBlock \<times> string list \<Rightarrow> eval_error + RasterDataBlock \<times> string list" where
  "ReadAndEvalBrick env T tree uvfs iters out =
     (case read_bricks env T uvfs iters of
        Inl err \<Rightarrow> Inl err
      | Inr (involumes, errs) \<Rightarrow>
          (let output = expression_evaluate env tree involumes in
           case uvfs of
             [] \<Rightarrow> Inl NoVolumes
           | u0 # us \<Rightarrow>
               (case iters of
                  [] \<Rightarrow> Inl IteratorPastEnd
                | it0 # its \<Rightarrow>
                    (let nk = IndexToVectorKey u0 (Bricks u0 ! it0) in
                     case SetData (fst out) output (fst nk) (snd nk) of
                       None \<Rightarrow> Inr (fst out, snd out @ errs @ [''Write failed!''])
                     | Some rdb \<Rightarrow> Inr (rdb, snd out @ errs)))))"

text \<open>
  The choice of the type in the loop over the bricks, from the widest type: the scalar
  type with which the bricks are read and evaluated, or the error that is reported
  instead.
\<close>

definition destination_type :: "nat \<Rightarrow> bool \<Rightarrow> bool \<Rightarrow> string + voxel_type" where
  "destination_type bit_width is_float is_signed =
     (if is_float \<and> bit_width = 32 then Inr t_float
      else if is_float \<and> bit_width = 64 then Inl ''double format data not supported!''
      else if is_signed \<and> bit_width = 8 then Inr t_int8
      else if \<not> is_signed \<and> bit_width = 8 then Inr t_uint8
      else if is_signed \<and> bit_width = 16 then Inr t_int16
      else if \<not> is_signed \<and> bit_width = 16 then Inr t_uint16
      else if is_signed \<and> bit_width = 32 then Inl ''32bit signed int data not implemented!''
      else if \<not> is_signed \<and> bit_width = 32 then Inl ''32bit unsigned data not implemented!''
      else if is_signed \<and> bit_width = 64 then Inl ''64bit signed int data not implemented!''
      else if \<not> is_signed \<and> bit_width = 64 then Inl ''64bit unsigned data not implemented!''
      else Inl ''Could not figure out destination data type!'')"

text \<open>
  The inner loop, over the indices of the volumes: every iteration makes the choice
  anew and, for a type it can handle, reads, evaluates and writes the current brick.
\<close>

fun volume_loop ::
  "environment \<Rightarrow> string \<Rightarrow> UVFDataset list \<Rightarrow> nat list \<Rightarrow> nat \<times> bool \<times> bool \<Rightarrow> nat list \<Rightarrow>
     RasterDataBlock \<times> string list \<Rightarrow> eval_error + RasterDataBlock \<times> string list" where
  "volume_loop env tree uvf viters (bit_width, is_float, is_signed) [] out = Inr out"
| "volume_loop env tree uvf viters (bit_width, is_float, is_signed) (i # rest) out =
     (case destination_type bit_width is_float is_signed of
        Inl msg \<Rightarrow>
          volume_loop env tree uvf viters (bit_width, is_float, is_signed) rest
            (fst out, snd out @ [msg])
      | Inr T \<Rightarrow>
          (case ReadAndEvalBrick env T tree uvf viters out of
             Inl err \<Rightarrow> Inl err
           | Inr out' \<Rightarrow>
               volume_loop env tree uvf viters (bit_width, is_float, is_signed) rest out'))"

text \<open>
  The loop over the bricks. It ends when the iterator of the first volume has reached
  the end of that volume's brick table; after the inner loop every iterator is advanced
  by one.
\<close>

definition advance_all :: "UVFDataset list \<Rightarrow> nat list \<Rightarrow> nat list option" where
  "advance_all uvf viters =
     (if list_all2 (\<lambda>u it. it < length (Bricks u)) uvf viters
      then Some (map Suc viters)
      else None)"

function brick_loop ::
  "environment \<Rightarrow> string \<Rightarrow> UVFDataset list \<Rightarrow> nat \<times> bool \<times> bool \<Rightarrow> nat list \<Rightarrow>
     RasterDataBlock \<times> string list \<Rightarrow> eval_error + RasterDataBlock \<times> string list" where
  "brick_loop env tree uvf widest viters out =
     (case uvf of
        [] \<Rightarrow> Inl NoVolumes
      | u0 # us \<Rightarrow>
          (case viters of
             [] \<Rightarrow> Inl IteratorPastEnd
           | it0 # its \<Rightarrow>
               if it0 = length (Bricks u0) then Inr out
               else
                 (case volume_loop env tree uvf viters widest [0..<length uvf] out of
                    Inl err \<Rightarrow> Inl err
                  | Inr out' \<Rightarrow>
                      (case advance_all uvf viters of
                         None \<Rightarrow> Inl IteratorPastEnd
                       | Some viters' \<Rightarrow> brick_loop env tree uvf widest viters' out'))))"
  by pat_completeness auto
termination
  by (relation "measure (\<lambda>(env, tree, uvf, widest, viters, out).
                  length (Bricks (hd uvf)) - hd viters)")
     (auto simp: advance_all_def split: if_splits)

declare brick_loop.simps [simp del]

text \<open>
  \<^verbatim>\<open>IOManager::EvaluateExpression\<close>. The expression stands for the tree that the parser
  makes of it. The output block is created and its type is set with
  \<^verbatim>\<open>SetTypeToUShort\<close> (its block semantic and its transformation, which are set as
  well, are not part of the model of a block); the first raster block of the first
  volume is assigned to it; it is given a new file; the bricks are evaluated and written
  into it; and \<^verbatim>\<open>CreateUVFFromRDB\<close> adds it, with the blocks computed from it, to the
  output file.
  The first volume's file is opened a second time for the assignment; the model takes
  the dataset opened from the same file. The name of the output file only names the
  files that are written and is left out. The result holds the block added to the output
  file, the other blocks added, the type that \<^verbatim>\<open>IdentifyType\<close> found, the datasets
  opened, and the errors reported.
\<close>

record evaluation =
  out_rdb :: RasterDataBlock
  out_blocks :: uvf_blocks
  widest_type :: "nat \<times> bool \<times> bool"
  input_datasets :: "UVFDataset list"
  reported :: "string list"

definition EvaluateExpression ::
  "environment \<Rightarrow> string \<Rightarrow> string list \<Rightarrow> eval_error + evaluation" where
  "EvaluateExpression env expr volumes =
     (if volumes = [] then Inl NoVolumes
      else if yyparse env expr = 1 then Inl SyntaxError
      else
        case open_volumes env volumes [] of
          Inl err \<Rightarrow> Inl err
        | Inr uvf \<Rightarrow>
            (if \<not> all_mergeable (hd uvf) uvf then Inl UnmergeableDatasets
             else
               (let viters = map (\<lambda>u. 0) uvf;
                    rdb = SetTypeToUShort (new_RasterDataBlock env) in
                case GetFirstRDB (hd uvf) of
                  None \<Rightarrow> Inl NoRasterBlock
                | Some rdb1 \<Rightarrow>
                    (let rdb = ResetFile (assign rdb rdb1);
                         widest = IdentifyType uvf in
                     case brick_loop env expr uvf widest viters (rdb, []) of
                       Inl err \<Rightarrow> Inl err
                     | Inr (rdb, errs) \<Rightarrow>
                         (case CreateUVFFromRDB rdb of
                            Inl err \<Rightarrow> Inl (StatsFailed err)
                          | Inr blocks \<Rightarrow>
                              Inr \<lparr> out_rdb = rdb, out_blocks = blocks, widest_type = widest,
                                    input_datasets = uvf, reported = errs \<rparr>)))))"

section \<open>Merging datasets\<close>

text \<open>
  \<^verbatim>\<open>IOManager::MergeDatasets\<close> works on files. The model keeps the set of names of the
  files that exist, and the errors and warnings the function reports (\<^verbatim>\<open>T_ERROR\<close>,
  \<^verbatim>\<open>WARNING\<close>; informational messages are left out). \<^verbatim>\<open>remove\<close> deletes a file and
  \<^verbatim>\<open>SysTools::FileExists\<close> is membership in the set.

  Modelled from the spec: the converters, the dataset's exporter, the merger and the
  builder are outside the sources. Following the spec's contracts for them, a
  successful \<^verbatim>\<open>ConvertToRAW\<close> and a successful \<^verbatim>\<open>Export\<close> leave the intermediate file
  they name, a successful \<^verbatim>\<open>ConvertRAWDataset\<close> or \<^verbatim>\<open>ConvertToNative\<close> leaves the
  target file, and a failed call makes no file that the model tracks, except that a
  failed \<^verbatim>\<open>Export\<close> and a merger may leave the file they were writing.
\<close>

datatype message = Error string | Warning string

record merge_state =
  bRAWCreated :: bool
  vIntermediateFiles :: "MergeDataset list"
  G :: volume_info
  files :: "string set"
  messages :: "message list"

text \<open>
  How the body of the loop over the inputs ends: it falls through to the next input,
  it leaves the loop (\<^verbatim>\<open>break\<close>), or it leaves the function (\<^verbatim>\<open>return false\<close>).
\<close>

datatype 'a flow = Continue 'a | Break 'a | Return 'a

definition flow_state :: "'a flow \<Rightarrow> 'a" where
  "flow_state r = (case r of Continue st \<Rightarrow> st | Break st \<Rightarrow> st | Return st \<Rightarrow> st)"

definition report :: "message \<Rightarrow> merge_state \<Rightarrow> merge_state" where
  "report m st = st\<lparr>messages := messages st @ [m]\<rparr>"

text \<open>
  \<^verbatim>\<open>identify_converters\<close>: the converters that can read the file, collected in a
  \<^verbatim>\<open>std::set\<close> of pointers, which keeps one entry per address in ascending order.
\<close>

fun set_insert :: "converter \<Rightarrow> converter list \<Rightarrow> converter list" where
  "set_insert c [] = [c]"
| "set_insert c (d # ds) =
     (if address c < address d then c # d # ds
      else if address c = address d then d # ds
      else d # set_insert c ds)"

fun identify_loop :: "string \<Rightarrow> converter list \<Rightarrow> converter list \<Rightarrow> converter list" where
  "identify_loop filename [] converters = converters"
| "identify_loop filename (c # cs) converters =
     identify_loop filename cs
       (if CanRead c filename then set_insert c converters else converters)"

definition identify_converters :: "string \<Rightarrow> converter list \<Rightarrow> converter list" where
  "identify_converters filename cs = identify_loop filename cs []"

text \<open>
  The macro \<^verbatim>\<open>DATA_TYPE_CHECK(a, b, errmsg)\<close>, applied to the outcome of \<^verbatim>\<open>a != b\<close>.
\<close>

definition DATA_TYPE_CHECK :: "bool \<Rightarrow> string \<Rightarrow> merge_state \<Rightarrow> merge_state" where
  "DATA_TYPE_CHECK differ errmsg st =
     (if differ then (report (Error errmsg) st)\<lparr>bRAWCreated := False\<rparr> else st)"

text \<open>
  \<^verbatim>\<open>FLOATVECTOR3(v.GetScale())\<close>: the scale of a dataset is a vector of doubles, and the
  constructor converts each component to a \<^verbatim>\<open>float\<close>.
\<close>

definition FLOATVECTOR3 :: "environment \<Rightarrow> real \<times> real \<times> real \<Rightarrow> real \<times> real \<times> real" where
  "FLOATVECTOR3 env v =
     (case v of (x, y, z) \<Rightarrow> (FLOAT_of_double env x, FLOAT_of_double env y, FLOAT_of_double env z))"

text \<open>The branch of the loop body for an input whose extension is "UVF".\<close>

definition merge_uvf_input ::
  "environment \<Rightarrow> string \<Rightarrow> nat \<Rightarrow> string \<Rightarrow> MergeDataset \<Rightarrow> merge_state \<Rightarrow> merge_state flow" where
  "merge_uvf_input env strTempDir iInputData filename IntermediateFile st =
     (let v = UVFDataset_ctor env filename in
      if \<not> IsOpen v then Return (report (Error ''Could not open '%s'!'') st)
      else
        (let iLODLevel = 0;
             st1 =
               (if iInputData = 0 then
                  st\<lparr>G := \<lparr> iComponentSizeG = GetBitWidth v,
                             iComponentCountG = GetComponentCount v,
                             bConvertEndianessG = (\<not> IsSameEndianness v),
                             bSignedG = GetIsSigned v,
                             bIsFloatG = GetIsFloat v,
                             vVolumeSizeG = GetDomainSize v iLODLevel 0,
                             vVolumeAspectG = FLOATVECTOR3 env (GetScale v) \<rparr>\<rparr>
                else
                  DATA_TYPE_CHECK (vVolumeSizeG (G st) \<noteq> GetDomainSize v iLODLevel 0)
                    ''different volume sizes''
                  (DATA_TYPE_CHECK (bIsFloatG (G st) \<noteq> GetIsFloat v)
                    ''some data float, other non-float.''
                  (DATA_TYPE_CHECK (bSignedG (G st) \<noteq> GetIsSigned v)
                    ''signedness differences''
                  (DATA_TYPE_CHECK (bConvertEndianessG (G st) \<noteq> (\<not> IsSameEndianness v))
                    ''mismatched endianness.''
                  (DATA_TYPE_CHECK (iComponentCountG (G st) \<noteq> GetComponentCount v)
                    ''different number of components.''
                  (DATA_TYPE_CHECK (iComponentSizeG (G st) \<noteq> GetBitWidth v)
                    ''mismatched bit widths.'' st))))))
         in
           if iInputData \<noteq> 0 \<and> bRAWCreated st1 = False
           then Break (report (Error ''Incompatible data types.'') st1)
           else
             (let st2 =
                    (if iInputData \<noteq> 0 \<and> vVolumeAspectG (G st1) \<noteq> FLOATVECTOR3 env (GetScale v)
                     then report (Warning ''Different aspect ratios found.'') st1
                     else st1);
                  name = strTempDir @ GetFilename env filename
                           @ ToString_rand env iInputData @ ''.raw'';
                  f = IntermediateFile\<lparr>iHeaderSkip := 0, strFilename := name, bDelete := True\<rparr>
              in
                if \<not> Export v iLODLevel name
                then Break (st2\<lparr>files := files st2 - {name}\<rparr>)
                else Continue (st2\<lparr> files := insert name (files st2),
                                     bRAWCreated := True,
                                     vIntermediateFiles := vIntermediateFiles st2 @ [f] \<rparr>))))"

text \<open>
  The loop over the identified converters: \<^verbatim>\<open>bRAWCreated\<close> is assigned the answer
  of each \<^verbatim>\<open>ConvertToRAW\<close>, and the first success ends the loop. The state is
  \<^verbatim>\<open>bRAWCreated\<close>, the output parameters, and the set of files.
\<close>

fun try_converters ::
  "converter list \<Rightarrow> string \<Rightarrow> string \<Rightarrow> bool \<Rightarrow> bool \<times> raw_conversion \<times> string set \<Rightarrow>
     bool \<times> raw_conversion \<times> string set" where
  "try_converters [] filename strTempDir bNoUserInteraction state = state"
| "try_converters (conv # convs) filename strTempDir bNoUserInteraction (created, out, fs) =
     (case ConvertToRAW conv filename strTempDir bNoUserInteraction of
        Some r \<Rightarrow> (True, r, insert (out_strIntermediateFile r) fs)
      | None \<Rightarrow> try_converters convs filename strTempDir bNoUserInteraction (False, out, fs))"

text \<open>
  The comparison of an input's metadata with the first input's, in the branch for the
  other formats.
\<close>

definition incompatible :: "volume_info \<Rightarrow> volume_info \<Rightarrow> bool" where
  "incompatible g info \<longleftrightarrow>
     iComponentSizeG g \<noteq> iComponentSizeG info \<or>
     iComponentCountG g \<noteq> iComponentCountG info \<or>
     bConvertEndianessG g \<noteq> bConvertEndianessG info \<or>
     bSignedG g \<noteq> bSignedG info \<or>
     bIsFloatG g \<noteq> bIsFloatG info \<or>
     vVolumeSizeG g \<noteq> vVolumeSizeG info"

text \<open>
  The branch of the loop body for every other input. The local variables start as
  zero, false and the zero vectors; the output parameters that belong to
  \<^verbatim>\<open>IntermediateFile\<close> start as its members.
\<close>

definition merge_other_input ::
  "environment \<Rightarrow> IOManager \<Rightarrow> string \<Rightarrow> bool \<Rightarrow> nat \<Rightarrow> string \<Rightarrow> MergeDataset \<Rightarrow>
     merge_state \<Rightarrow> merge_state flow" where
  "merge_other_input env io strTempDir bNoUserInteraction iInputData filename IntermediateFile st =
     (let locals = \<lparr> out_iHeaderSkip = iHeaderSkip IntermediateFile,
                      out_info = \<lparr> iComponentSizeG = 0, iComponentCountG = 0,
                                   bConvertEndianessG = False, bSignedG = False,
                                   bIsFloatG = False, vVolumeSizeG = (0, 0, 0),
                                   vVolumeAspectG = (0, 0, 0) \<rparr>,
                      out_strIntermediateFile = strFilename IntermediateFile,
                      out_bDeleteIntermediateFile = bDelete IntermediateFile \<rparr>;
          converters = identify_converters filename (m_vpConverters io);
          (created1, out1, files1) =
            try_converters converters filename strTempDir bNoUserInteraction
              (bRAWCreated st, locals, files st);
          (created2, out2, files2) =
            (if \<not> created1 then
               (case m_pFinalConverter io of
                  None \<Rightarrow> (created1, out1, files1)
                | Some final \<Rightarrow>
                    (case ConvertToRAW final filename strTempDir bNoUserInteraction of
                       Some r \<Rightarrow> (True, r, insert (out_strIntermediateFile r) files1)
                     | None \<Rightarrow> (False, out1, files1)))
             else (created1, out1, files1))
      in
        if \<not> created2 then Break (st\<lparr>bRAWCreated := created2, files := files2\<rparr>)
        else
          (let f = IntermediateFile\<lparr> iHeaderSkip := out_iHeaderSkip out2,
                                     strFilename := out_strIntermediateFile out2,
                                     bDelete := out_bDeleteIntermediateFile out2 \<rparr>;
               st1 = st\<lparr> bRAWCreated := created2, files := files2,
                         vIntermediateFiles := vIntermediateFiles st @ [f] \<rparr>
           in
             if iInputData = 0 then Continue (st1\<lparr>G := out_info out2\<rparr>)
             else if incompatible (G st1) (out_info out2)
             then Break ((report (Error ''Incompatible data types.'') st1)\<lparr>bRAWCreated := False\<rparr>)
             else if vVolumeAspectG (G st1) \<noteq> vVolumeAspectG (out_info out2)
             then Continue (report (Warning ''Different aspect ratios found.'') st1)
             else Continue st1))"

text \<open>
  One input of the merge: its file name, scale and bias (the entries of the three
  vectors at one index). The members of a fresh \<^verbatim>\<open>MergeDataset\<close> that the body has
  not assigned yet are the empty name, zero and false.
\<close>

record merge_input =
  input_strFilename :: string
  input_fScale :: real
  input_fBias :: real

definition merge_input_body ::
  "environment \<Rightarrow> IOManager \<Rightarrow> string \<Rightarrow> bool \<Rightarrow> nat \<Rightarrow> merge_input \<Rightarrow> merge_state \<Rightarrow>
     merge_state flow" where
  "merge_input_body env io strTempDir bNoUserInteraction iInputData inp st =
     (let strExt = ToUpperCase (GetExt env (input_strFilename inp));
          IntermediateFile = \<lparr> strFilename = [], iHeaderSkip = 0, bDelete = False,
                                fScale = input_fScale inp, fBias = input_fBias inp \<rparr>
      in if strExt = ''UVF''
         then merge_uvf_input env strTempDir iInputData (input_strFilename inp) IntermediateFile st
         else merge_other_input env io strTempDir bNoUserInteraction iInputData
                (input_strFilename inp) IntermediateFile st)"

fun merge_inputs ::
  "environment \<Rightarrow> IOManager \<Rightarrow> string \<Rightarrow> bool \<Rightarrow> nat \<Rightarrow> merge_input list \<Rightarrow> merge_state \<Rightarrow>
     merge_state flow" where
  "merge_inputs env io strTempDir bNoUserInteraction iInputData [] st = Continue st"
| "merge_inputs env io strTempDir bNoUserInteraction iInputData (inp # rest) st =
     (case merge_input_body env io strTempDir bNoUserInteraction iInputData inp st of
        Continue st' \<Rightarrow> merge_inputs env io strTempDir bNoUserInteraction (Suc iInputData) rest st'
      | Break st' \<Rightarrow> Break st'
      | Return st' \<Rightarrow> Return st')"

text \<open>The loop that removes the intermediate files whose delete flag is set.\<close>

fun remove_intermediate :: "MergeDataset list \<Rightarrow> string set \<Rightarrow> string set" where
  "remove_intermediate [] fs = fs"
| "remove_intermediate (f # rest) fs =
     remove_intermediate rest
       (if bDelete f \<and> strFilename f \<in> fs then fs - {strFilename f} else fs)"

text \<open>
  The choice of the instance of \<^verbatim>\<open>DataMerger\<close>. \<open>Inl ()\<close> is the branch for unsigned
  floating-point data, which returns false; \<open>Inr None\<close> is a component size that no
  \<^verbatim>\<open>case\<close> of the \<^verbatim>\<open>switch\<close> matches, so that no merger runs.
\<close>

definition merger_type :: "volume_info \<Rightarrow> unit + prim_type option" where
  "merger_type g =
     (if bSignedG g then
        (if bIsFloatG g then
           (if iComponentSizeG g = 32 then Inr (Some T_float)
            else if iComponentSizeG g = 64 then Inr (Some T_double)
            else Inr None)
         else
           (if iComponentSizeG g = 8 then Inr (Some T_char)
            else if iComponentSizeG g = 16 then Inr (Some T_short)
            else if iComponentSizeG g = 32 then Inr (Some T_int)
            else if iComponentSizeG g = 64 then Inr (Some T_int64)
            else Inr None))
      else
        (if bIsFloatG g then Inl ()
         else
           (if iComponentSizeG g = 8 then Inr (Some T_uchar)
            else if iComponentSizeG g = 16 then Inr (Some T_ushort)
            else if iComponentSizeG g = 32 then Inr (Some T_uint)
            else if iComponentSizeG g = 64 then Inr (Some T_UINT64)
            else Inr None)))"

text \<open>
  The two loops that look for a converter of the target's extension and ask it to
  write the target. The state is \<^verbatim>\<open>bTargetCreated\<close> and the state of the merge.
\<close>

fun native_exts ::
  "converter \<Rightarrow> string list \<Rightarrow> string \<Rightarrow> native_args \<Rightarrow> bool \<times> merge_state \<Rightarrow>
     bool \<times> merge_state" where
  "native_exts conv [] strExtTarget args state = state"
| "native_exts conv (e # es) strExtTarget args (created, st) =
     (if e = strExtTarget then
        (if ConvertToNative conv args
         then (True, st\<lparr>files := insert (nat_strTargetFilename args) (files st)\<rparr>)
         else native_exts conv es strExtTarget args
                (False, report (Warning ''%s said it could convert to native, but failed!'') st))
      else native_exts conv es strExtTarget args (created, st))"

fun native_converters ::
  "converter list \<Rightarrow> string \<Rightarrow> native_args \<Rightarrow> bool \<times> merge_state \<Rightarrow> bool \<times> merge_state" where
  "native_converters [] strExtTarget args state = state"
| "native_converters (conv # convs) strExtTarget args state =
     (case native_exts conv (SupportedExt conv) strExtTarget args state of
        (created, st) \<Rightarrow>
          if created then (created, st)
          else native_converters convs strExtTarget args (created, st))"

text \<open>
  \<^verbatim>\<open>UINT64VECTOR3::volume()\<close>, the product of the three components, and the number of
  elements \<^verbatim>\<open>vVolumeSizeG.volume()*iComponentCountG\<close> that is passed to the
  \<^verbatim>\<open>DataMerger\<close>. Both products are taken in \<^verbatim>\<open>UINT64\<close> and wrap around at \<open>2\<^sup>6\<^sup>4\<close>.
\<close>

definition volume :: "nat \<times> nat \<times> nat \<Rightarrow> nat" where
  "volume v = (case v of (x, y, z) \<Rightarrow> (x * y * z) mod 2 ^ 64)"

definition element_count :: "volume_info \<Rightarrow> nat" where
  "element_count g = (volume (vVolumeSizeG g) * iComponentCountG g) mod 2 ^ 64"

text \<open>
  The function after the loop over the inputs, from the test of \<^verbatim>\<open>bRAWCreated\<close> on.
  The result is the returned value and the final state.
\<close>

definition merge_and_convert ::
  "environment \<Rightarrow> IOManager \<Rightarrow> string \<Rightarrow> string \<Rightarrow> bool \<Rightarrow> bool \<Rightarrow> merge_state \<Rightarrow>
     bool \<times> merge_state" where
  "merge_and_convert env io strTargetFilename strTempDir bUseMaxMode bNoUserInteraction st =
     (if \<not> bRAWCreated st then
        (False,
         (report (Error ''...  and bailing.'')
            (report (Error ''No raw files.  Deleting temp files...'') st))
           \<lparr>files := remove_intermediate (vIntermediateFiles st) (files st)\<rparr>)
      else
        (let strMergedFile = strTempDir @ ''merged.raw'';
             g = G st
         in
           case merger_type g of
             Inl u \<Rightarrow>
               (False, report (Error ''Don't know how to handle unsigned float data.'') st)
           | Inr T \<Rightarrow>
               (let (bIsMerged, files1) =
                      (case T of
                         None \<Rightarrow> (False, files st)
                       | Some t \<Rightarrow>
                           (let d = DataMerger env t (vIntermediateFiles st) strMergedFile
                                      (element_count g) bUseMaxMode
                            in (IsOK d,
                                if merged_file_exists d
                                then insert strMergedFile (files st)
                                else files st - {strMergedFile})));
                    st1 = st\<lparr>files := remove_intermediate (vIntermediateFiles st) files1\<rparr>
                in
                  if \<not> bIsMerged
                  then (False, report (Warning ''Merged failed, see other debug messages.'') st1)
                  else
                    (let strExtTarget = ToUpperCase (GetExt env strTargetFilename);
                         (bTargetCreated, st2) =
                           (if strExtTarget = ''UVF'' then
                              (let created = ConvertRAWDataset env
                                     \<lparr> arg_strFilename = strMergedFile,
                                       arg_strTargetFilename = strTargetFilename,
                                       arg_strTempDir = strTempDir,
                                       arg_iHeaderSkip = 0,
                                       arg_iComponentSize = iComponentSizeG g,
                                       arg_iComponentCount = iComponentCountG g,
                                       arg_timesteps = 1,
                                       arg_bConvertEndianness = bConvertEndianessG g,
                                       arg_bSigned = bSignedG g,
                                       arg_bIsFloat = bIsFloatG g,
                                       arg_vVolumeSize = vVolumeSizeG g,
                                       arg_vVolumeAspect = vVolumeAspectG g,
                                       arg_strDesc = ''Merged data from multiple files'',
                                       arg_strSource = GetFilename env strMergedFile,
                                       arg_iTargetBrickSize = m_iMaxBrickSize io,
                                       arg_iTargetBrickOverlap = m_iBrickOverlap io,
                                       arg_bQuantizeTo8Bit = False \<rparr>
                               in (created,
                                   if created
                                   then st1\<lparr>files := insert strTargetFilename (files st1)\<rparr>
                                   else st1))
                            else
                              native_converters (m_vpConverters io) strExtTarget
                                \<lparr> nat_strRawFilename = strMergedFile,
                                  nat_strTargetFilename = strTargetFilename,
                                  nat_iHeaderSkip = 0,
                                  nat_info = g,
                                  nat_bNoUserInteraction = bNoUserInteraction,
                                  nat_bQuantizeTo8Bit = False \<rparr>
                                (False, st1))
                     in (bTargetCreated, st2\<lparr>files := files st2 - {strMergedFile}\<rparr>)))))"

text \<open>
  \<^verbatim>\<open>IOManager::MergeDatasets\<close>, started with the set of the files that exist. A
  \<^verbatim>\<open>return false\<close> inside the loop ends the function at once; after a \<^verbatim>\<open>break\<close> and
  after the last input the function goes on with the test of \<^verbatim>\<open>bRAWCreated\<close>.
\<close>

definition MergeDatasets ::
  "environment \<Rightarrow> IOManager \<Rightarrow> merge_input list \<Rightarrow> string \<Rightarrow> string \<Rightarrow> bool \<Rightarrow> bool \<Rightarrow>
     string set \<Rightarrow> bool \<times> merge_state" where
  "MergeDatasets env io inputs strTargetFilename strTempDir bUseMaxMode bNoUserInteraction fs =
     (case merge_inputs env io strTempDir bNoUserInteraction 0 inputs
             \<lparr> bRAWCreated = False, vIntermediateFiles = [],
               G = \<lparr> iComponentSizeG = 0, iComponentCountG = 0, bConvertEndianessG = False,
                     bSignedG = False, bIsFloatG = False, vVolumeSizeG = (0, 0, 0),
                     vVolumeAspectG = (0, 0, 0) \<rparr>,
               files = fs, messages = [] \<rparr> of
        Return st \<Rightarrow> (False, st)
      | Break st \<Rightarrow>
          merge_and_convert env io strTargetFilename strTempDir bUseMaxMode bNoUserInteraction st
      | Continue st \<Rightarrow>
          merge_and_convert env io strTargetFilename strTempDir bUseMaxMode bNoUserInteraction st)"

subsection \<open>The inputs as the merge sees them\<close>

text \<open>
  For stating what the loop over the inputs achieves: whether an input takes the UVF
  branch, the metadata a UVF dataset reports, the first successful conversion among
  the converters tried in turn, whether an input is converted to an intermediate file
  (a UVF input opens and is exported; another input is converted by one of the
  converters that identify it), and the metadata the loop obtains for an input.
\<close>

definition is_uvf_input :: "environment \<Rightarrow> merge_input \<Rightarrow> bool" where
  "is_uvf_input env inp \<longleftrightarrow> ToUpperCase (GetExt env (input_strFilename inp)) = ''UVF''"

definition uvf_info :: "environment \<Rightarrow> UVFDataset \<Rightarrow> volume_info" where
  "uvf_info env v =
     \<lparr> iComponentSizeG = GetBitWidth v,
       iComponentCountG = GetComponentCount v,
       bConvertEndianessG = (\<not> IsSameEndianness v),
       bSignedG = GetIsSigned v,
       bIsFloatG = GetIsFloat v,
       vVolumeSizeG = GetDomainSize v 0 0,
       vVolumeAspectG = FLOATVECTOR3 env (GetScale v) \<rparr>"

fun first_conversion ::
  "converter list \<Rightarrow> string \<Rightarrow> string \<Rightarrow> bool \<Rightarrow> raw_conversion option" where
  "first_conversion [] filename strTempDir bNoUserInteraction = None"
| "first_conversion (conv # convs) filename strTempDir bNoUserInteraction =
     (case ConvertToRAW conv filename strTempDir bNoUserInteraction of
        Some r \<Rightarrow> Some r
      | None \<Rightarrow> first_conversion convs filename strTempDir bNoUserInteraction)"

definition identified_conversion ::
  "IOManager \<Rightarrow> string \<Rightarrow> bool \<Rightarrow> merge_input \<Rightarrow> raw_conversion option" where
  "identified_conversion io strTempDir bNoUserInteraction inp =
     first_conversion (identify_converters (input_strFilename inp) (m_vpConverters io))
       (input_strFilename inp) strTempDir bNoUserInteraction"

definition input_converts ::
  "environment \<Rightarrow> IOManager \<Rightarrow> string \<Rightarrow> bool \<Rightarrow> nat \<Rightarrow> merge_input \<Rightarrow> bool" where
  "input_converts env io strTempDir bNoUserInteraction iInputData inp =
     (if is_uvf_input env inp then
        (if IsOpen (UVFDataset_ctor env (input_strFilename inp))
         then Export (UVFDataset_ctor env (input_strFilename inp)) 0
                (strTempDir @ GetFilename env (input_strFilename inp)
                   @ ToString_rand env iInputData @ ''.raw'')
         else False)
      else
        (case identified_conversion io strTempDir bNoUserInteraction inp of
           Some r \<Rightarrow> True
         | None \<Rightarrow> False))"

definition input_info ::
  "environment \<Rightarrow> IOManager \<Rightarrow> string \<Rightarrow> bool \<Rightarrow> merge_input \<Rightarrow> volume_info option" where
  "input_info env io strTempDir bNoUserInteraction inp =
     (if is_uvf_input env inp
      then Some (uvf_info env (UVFDataset_ctor env (input_strFilename inp)))
      else map_option out_info (identified_conversion io strTempDir bNoUserInteraction inp))"

section \<open>Example inputs\<close>

text \<open>
  Concrete inputs on which the functions are evaluated below. The path helpers take
  the text after the last dot and after the last slash.
\<close>

definition file_ext :: "string \<Rightarrow> string" where
  "file_ext path = rev (takeWhile (\<lambda>c. c \<noteq> CHR ''.'') (rev path))"

definition file_name :: "string \<Rightarrow> string" where
  "file_name path = rev (takeWhile (\<lambda>c. c \<noteq> CHR ''/'') (rev path))"

text \<open>A raster block with one LOD of one brick, whose voxels are given.\<close>

definition one_brick_level :: "int list \<Rightarrow> lod_level" where
  "one_brick_level voxels =
     \<lparr> brick_counts = (1, 1, 1), brick_ints = (\<lambda>idx. voxels), brick_floats = (\<lambda>idx. []) \<rparr>"

definition int_block :: "nat \<Rightarrow> bool \<Rightarrow> int list \<Rightarrow> RasterDataBlock" where
  "int_block bits is_signed voxels =
     \<lparr> ulElementDimensionSize = 1, ulElementBitSize = bits, ulElementMantissa = 0,
       bSignedElement = is_signed, lod_levels = [one_brick_level voxels] \<rparr>"

text \<open>A raster block with two LODs of one brick each.\<close>

definition two_level_block :: "nat \<Rightarrow> bool \<Rightarrow> int list \<Rightarrow> RasterDataBlock" where
  "two_level_block bits is_signed voxels =
     \<lparr> ulElementDimensionSize = 1, ulElementBitSize = bits, ulElementMantissa = 0,
       bSignedElement = is_signed,
       lod_levels = [one_brick_level voxels, one_brick_level voxels] \<rparr>"

text \<open>
  An unsigned one-component dataset of the given bit width with one timestep and two
  LODs of one brick each. Its domain is \<open>64\<^sup>3\<close> voxels at LOD 0 and the given size at
  LOD 1. Its export succeeds or fails as the flag says. Every brick holds the voxels 1
  and 2, whatever the type they are read with.
\<close>

definition example_dataset :: "bool \<Rightarrow> nat \<Rightarrow> nat \<times> nat \<times> nat \<Rightarrow> bool \<Rightarrow> UVFDataset" where
  "example_dataset opens bits coarse exports =
     \<lparr> IsOpen = opens, GetBitWidth = bits, GetComponentCount = 1, IsSameEndianness = True,
       GetIsSigned = False, GetIsFloat = False,
       GetDomainSize = (\<lambda>lod ts. if lod = 0 then (64, 64, 64) else coarse),
       GetScale = (1, 1, 1), GetBrickOverlapSize = (2, 2, 2), GetNumberOfTimesteps = 1,
       GetLODLevelCount = 2, GetBrickCount = (\<lambda>lod ts. (1, 1, 1)),
       Export = (\<lambda>lod path. exports),
       GetFirstRDB = Some (two_level_block bits False [1, 2]),
       Bricks = [(0, 0), (1, 0)],
       IndexToVectorKey = (\<lambda>key. (fst key, (0, 0, 0))),
       GetBrick = (\<lambda>T key. \<lparr> buffer_ints = [1, 2], buffer_floats = [1, 2] \<rparr>),
       GetRange = (1, 2) \<rparr>"

text \<open>A dataset of 32-bit floating-point data with the geometry of the former.\<close>

definition float_dataset :: UVFDataset where
  "float_dataset =
     (example_dataset True 32 (32, 32, 32) True)\<lparr>GetIsSigned := True, GetIsFloat := True\<rparr>"

text \<open>The voxel-wise sum of the first two of some vectors.\<close>

definition sum_of_two :: "voxel_buffer list \<Rightarrow> voxel_buffer" where
  "sum_of_two involumes =
     (case involumes of
        a # b # rest \<Rightarrow>
          \<lparr> buffer_ints = map2 (+) (buffer_ints a) (buffer_ints b),
            buffer_floats = map2 (+) (buffer_floats a) (buffer_floats b) \<rparr>
      | _ \<Rightarrow> \<lparr> buffer_ints = [], buffer_floats = [] \<rparr>)"

definition example_volume :: "nat \<Rightarrow> volume_info" where
  "example_volume bits =
     \<lparr> iComponentSizeG = bits, iComponentCountG = 1, bConvertEndianessG = False,
       bSignedG = False, bIsFloatG = False, vVolumeSizeG = (64, 64, 64),
       vVolumeAspectG = (1, 1, 1) \<rparr>"

text \<open>
  A converter for files with the extension "dat": it converts every such file to a raw
  file in the temporary directory that the caller is to delete; the file
  \<open>wide.dat\<close> holds 16-bit data, every other one 8-bit data.
\<close>

definition dat_converter :: converter where
  "dat_converter =
     \<lparr> address = 1, GetDesc = ''Raw data'', SupportedExt = [''DAT''], CanExportData = True,
       CanRead = (\<lambda>path. file_ext path = ''dat''),
       ConvertToRAW = (\<lambda>path tempdir no_ui.
          Some \<lparr> out_iHeaderSkip = 0,
                 out_info = example_volume (if path = ''wide.dat'' then 16 else 8),
                 out_strIntermediateFile = tempdir @ file_name path @ ''.raw'',
                 out_bDeleteIntermediateFile = True \<rparr>),
       ConvertToNative = (\<lambda>args. True) \<rparr>"

text \<open>
  The environment: every temporary file can be created, the builder and the merger
  succeed, and the parser accepts every expression. Of the UVF files, \<open>a.uvf\<close> holds
  8-bit data whose domain at LOD 1 is \<open>32\<^sup>3\<close>, \<open>b.uvf\<close> holds 16-bit data whose
  domain at LOD 1 is \<open>22\<^sup>3\<close>, \<open>c.uvf\<close> (known to the dataset factory only) holds
  8-bit data whose domain at LOD 1 is \<open>22\<^sup>3\<close>, \<open>f.uvf\<close> (known to the dataset
  factory only) holds floating-point data with the geometry of \<open>a.uvf\<close>, \<open>full.uvf\<close>
  is like \<open>a.uvf\<close> but cannot be exported, and no other UVF file can be opened. The
  doubles that are converted to floats are held by a float as they are, a vector is
  expanded to another type with its values unchanged, and every expression evaluates to
  the sum of the first two volumes.
\<close>

definition example_env :: environment where
  "example_env =
     \<lparr> GetFilename = file_name, GetExt = file_ext, IsBigEndian = False, BITS_IN_JSAMPLE = 8,
       temp_file_opens = (\<lambda>path. True), ConvertRAWDataset = (\<lambda>args. True),
       ToString_rand = (\<lambda>i. ''42''),
       UVFDataset_ctor = (\<lambda>path.
          if path = ''a.uvf'' then example_dataset True 8 (32, 32, 32) True
          else if path = ''b.uvf'' then example_dataset True 16 (22, 22, 22) True
          else if path = ''full.uvf'' then example_dataset True 8 (32, 32, 32) False
          else example_dataset False 8 (32, 32, 32) False),
       Create = (\<lambda>path.
          if path = ''a.uvf'' then Some (example_dataset True 8 (32, 32, 32) True)
          else if path = ''b.uvf'' then Some (example_dataset True 16 (22, 22, 22) True)
          else if path = ''c.uvf'' then Some (example_dataset True 8 (22, 22, 22) True)
          else if path = ''f.uvf'' then Some float_dataset
          else None),
       DataMerger = (\<lambda>t fs merged n use_max. \<lparr> IsOK = True, merged_file_exists = True \<rparr>),
       yyparse = (\<lambda>expr. 0),
       new_RasterDataBlock = int_block 0 False [],
       FLOAT_of_double = (\<lambda>x. x),
       interpolate = (\<lambda>S T width tmpdata range. tmpdata),
       expression_evaluate = (\<lambda>tree. sum_of_two) \<rparr>"

definition example_io :: IOManager where
  "example_io = IOManager_ctor [dat_converter] 256 4"

definition merge_of :: "string \<Rightarrow> merge_input" where
  "merge_of path = \<lparr> input_strFilename = path, input_fScale = 1, input_fBias = 0 \<rparr>"

text \<open>A slice of one RGB voxel \<open>(1,2,3)\<close>, and stacks made of such slices.\<close>

definition rgb_slice :: "string \<Rightarrow> stack_element" where
  "rgb_slice name = \<lparr> m_strFileName = name, GetData = [1, 2, 3],
                       element_GetComponentCount = 3, GetOffsetToData = 0,
                       jpeg_valid = False, jpeg_data = [] \<rparr>"

definition two_slice_rgb_stack :: FileStackInfo where
  "two_slice_rgb_stack =
     \<lparr> m_strFileType = ''DICOM'',
       m_Elements = [rgb_slice ''slice0.dcm'', rgb_slice ''slice1.dcm''],
       m_ivSize = (1, 1, 1), m_fvfAspect = (1, 1, 1), m_iAllocated = 8, m_iStored = 8,
       m_iComponentCount = 3, m_bIsBigEndian = False, m_bIsJPEGEncoded = False,
       m_strDesc = ''rgb'' \<rparr>"

text \<open>An image stack of one RGB slice whose allocated width is 32 bits.\<close>

definition wide_image_stack :: FileStackInfo where
  "wide_image_stack =
     \<lparr> m_strFileType = ''IMAGE'',
       m_Elements = [rgb_slice ''slice0.png''],
       m_ivSize = (1, 1, 1), m_fvfAspect = (1, 1, 1), m_iAllocated = 32, m_iStored = 32,
       m_iComponentCount = 3, m_bIsBigEndian = False, m_bIsJPEGEncoded = False,
       m_strDesc = ''image'' \<rparr>"

text \<open>A converter that advertises the extension "NRRD" in upper case.\<close>

definition nrrd_converter :: converter where
  "nrrd_converter =
     \<lparr> address = 2, GetDesc = ''Nearly Raw Raster Data'', SupportedExt = [''NRRD'', ''NHDR''],
       CanExportData = True, CanRead = (\<lambda>path. file_ext path = ''nrrd''),
       ConvertToRAW = (\<lambda>path tempdir no_ui. None),
       ConvertToNative = (\<lambda>args. True) \<rparr>"

section \<open>Theorems\<close>

subsection \<open>Brick-size settings\<close>

lemma run_call_invariant: "brick_invariant io \<Longrightarrow> brick_invariant (run_call c io)"
  by (cases c)
     (simp_all add: brick_invariant_def SetMaxBrickSize_def SetBrickOverlap_def
        RegisterExternalConverter_def RegisterFinalConverter_def)

lemma fold_run_call_invariant:
  "brick_invariant io \<Longrightarrow> brick_invariant (fold run_call cs io)"
  by (induction cs arbitrary: io) (simp_all add: run_call_invariant)

text \<open>
  Claim C9. \<^verbatim>\<open>SetMaxBrickSize(n)\<close> returns true exactly when \<open>n\<close> is greater than the
  current overlap, and then only the maximal brick size changes (to \<open>n\<close>);
  \<^verbatim>\<open>SetBrickOverlap(n)\<close> returns true exactly when the current maximal brick size is
  greater than \<open>n\<close>, and then only the overlap changes (to \<open>n\<close>); a call that returns
  false leaves the manager as it was. Hence \<^verbatim>\<open>m_iMaxBrickSize > m_iBrickOverlap\<close> is
  preserved by every sequence of calls, and it holds from construction on when the
  default brick size is greater than the default overlap.
\<close>

theorem brick_settings_invariant:
  "fst (SetMaxBrickSize n io) = (n > m_iBrickOverlap io) \<and>
   (fst (SetMaxBrickSize n io) \<longrightarrow>
      m_iMaxBrickSize (snd (SetMaxBrickSize n io)) = n \<and>
      m_iBrickOverlap (snd (SetMaxBrickSize n io)) = m_iBrickOverlap io) \<and>
   (\<not> fst (SetMaxBrickSize n io) \<longrightarrow> snd (SetMaxBrickSize n io) = io) \<and>
   fst (SetBrickOverlap n io) = (m_iMaxBrickSize io > n) \<and>
   (fst (SetBrickOverlap n io) \<longrightarrow>
      m_iBrickOverlap (snd (SetBrickOverlap n io)) = n \<and>
      m_iMaxBrickSize (snd (SetBrickOverlap n io)) = m_iMaxBrickSize io) \<and>
   (\<not> fst (SetBrickOverlap n io) \<longrightarrow> snd (SetBrickOverlap n io) = io) \<and>
   (brick_invariant io \<longrightarrow> brick_invariant (run_calls cs io)) \<and>
   (ov < bs \<longrightarrow> brick_invariant (run_calls cs (IOManager_ctor builtin bs ov)))"
proof -
  have ctor: "ov < bs \<Longrightarrow> brick_invariant (IOManager_ctor builtin bs ov)"
    by (simp add: brick_invariant_def IOManager_ctor_def)
  have "ov < bs \<longrightarrow> brick_invariant (run_calls cs (IOManager_ctor builtin bs ov))"
    unfolding run_calls_def using ctor fold_run_call_invariant by blast
  moreover have "brick_invariant io \<longrightarrow> brick_invariant (run_calls cs io)"
    unfolding run_calls_def using fold_run_call_invariant by blast
  ultimately show ?thesis
    by (simp add: SetMaxBrickSize_def SetBrickOverlap_def)
qed

theorem brick_settings_invariant_witness:
  "fst (SetMaxBrickSize 2 (IOManager_ctor [] 256 4)) = False \<and>
   snd (SetMaxBrickSize 2 (IOManager_ctor [] 256 4)) = IOManager_ctor [] 256 4 \<and>
   fst (SetBrickOverlap 2 (IOManager_ctor [] 256 4)) = True \<and>
   m_iBrickOverlap (snd (SetBrickOverlap 2 (IOManager_ctor [] 256 4))) = 2 \<and>
   m_iMaxBrickSize (snd (SetBrickOverlap 2 (IOManager_ctor [] 256 4))) = 256 \<and>
   brick_invariant (IOManager_ctor [] 256 4) \<and>
   brick_invariant
     (run_calls [CallSetBrickOverlap 300, CallSetMaxBrickSize 3, CallSetMaxBrickSize 64]
        (IOManager_ctor [] 256 4))"
proof -
  have lt: "(4 :: UINT64) < 256" by simp
  have inv0: "brick_invariant (IOManager_ctor [] 256 4)"
    by (simp add: brick_invariant_def IOManager_ctor_def)
  have a: "\<not> fst (SetMaxBrickSize 2 (IOManager_ctor [] 256 4))"
    by (simp add: SetMaxBrickSize_def IOManager_ctor_def)
  have b: "fst (SetBrickOverlap 2 (IOManager_ctor [] 256 4))"
    by (simp add: SetBrickOverlap_def IOManager_ctor_def)
  note t = brick_settings_invariant
    [of 2 "IOManager_ctor [] 256 4"
        "[CallSetBrickOverlap 300, CallSetMaxBrickSize 3, CallSetMaxBrickSize 64]" 4 256 "[]"]
  from t a have c1: "snd (SetMaxBrickSize 2 (IOManager_ctor [] 256 4)) = IOManager_ctor [] 256 4"
    by blast
  from t b have c2: "m_iBrickOverlap (snd (SetBrickOverlap 2 (IOManager_ctor [] 256 4))) = 2"
    by blast
  from t b have "m_iMaxBrickSize (snd (SetBrickOverlap 2 (IOManager_ctor [] 256 4))) =
      m_iMaxBrickSize (IOManager_ctor [] 256 4)"
    by blast
  then have c3: "m_iMaxBrickSize (snd (SetBrickOverlap 2 (IOManager_ctor [] 256 4))) = 256"
    by (simp add: IOManager_ctor_def)
  from t lt have c4: "brick_invariant
      (run_calls [CallSetBrickOverlap 300, CallSetMaxBrickSize 3, CallSetMaxBrickSize 64]
         (IOManager_ctor [] 256 4))"
    by blast
  from a b c1 c2 c3 c4 inv0 show ?thesis by blast
qed

subsection \<open>Lookup of a converter by extension\<close>

lemma tolower_idem: "tolower (tolower c) = tolower c"
  by (cases c) (simp add: Let_def)

lemma ToLowerCase_idem: "ToLowerCase (ToLowerCase s) = ToLowerCase s"
  by (simp add: ToLowerCase_def tolower_idem)

lemma ext_among_iff: "ext_among ext es \<longleftrightarrow> ext \<in> ToLowerCase ` set es"
  by (induction es) auto

lemma lookup_from_Some:
  "GetConverterForExt_from k cs ext must = Some i \<Longrightarrow>
     k \<le> i \<and> i - k < length cs \<and>
     (must \<longrightarrow> CanExportData (cs ! (i - k))) \<and>
     ext \<in> ToLowerCase ` set (SupportedExt (cs ! (i - k)))"
proof (induction cs arbitrary: k)
  case Nil
  then show ?case by simp
next
  case (Cons c cs)
  show ?case
  proof (cases "(\<not> must \<or> CanExportData c) \<and> ext_among ext (SupportedExt c)")
    case True
    with Cons.prems show ?thesis by (auto simp: ext_among_iff)
  next
    case False
    with Cons.prems have later: "GetConverterForExt_from (Suc k) cs ext must = Some i"
      by auto
    from Cons.IH [OF later] have "Suc k \<le> i" and "i - Suc k < length cs"
      and "must \<longrightarrow> CanExportData (cs ! (i - Suc k))"
      and "ext \<in> ToLowerCase ` set (SupportedExt (cs ! (i - Suc k)))"
      by simp_all
    moreover from \<open>Suc k \<le> i\<close> have "i - k = Suc (i - Suc k)" by simp
    ultimately show ?thesis by simp
  qed
qed

lemma lookup_from_finds:
  "c \<in> set cs \<Longrightarrow> ext \<in> ToLowerCase ` set (SupportedExt c) \<Longrightarrow>
     (must \<longrightarrow> CanExportData c) \<Longrightarrow>
     \<exists>i. GetConverterForExt_from k cs ext must = Some i"
  by (induction cs arbitrary: k) (auto simp: ext_among_iff)

text \<open>
  Claim C8 as stated fails: the argument is compared as it is with the lower-case
  form of each advertised extension, so the function ignores the letter case of the
  advertised extension but not that of its argument. A converter that advertises
  "NRRD" is found for "nrrd" and not for "NRRD".
\<close>

theorem uppercase_lookup_fails:
  "''NRRD'' \<in> set (SupportedExt nrrd_converter) \<and>
   GetConverterForExt (IOManager_ctor [nrrd_converter] 256 4) ''NRRD'' False = None \<and>
   GetConverterForExt (IOManager_ctor [nrrd_converter] 256 4) ''nrrd'' False = Some 0"
  by (simp add: GetConverterForExt_def IOManager_ctor_def nrrd_converter_def ToLowerCase_def)

text \<open>
  Claim C8, amended. For every registered converter \<open>c\<close> that can export when that is
  required and every extension \<open>e\<close> it advertises, in whatever letter case, the lookup
  of the lower-case form of \<open>e\<close> returns a converter. Whatever the argument \<open>x\<close>, a
  converter that the lookup returns is registered, can export when that is required,
  and advertises an extension whose lower-case form is \<open>x\<close>; so a lookup succeeds only
  for an argument that is in lower case already.
\<close>

theorem lookup_by_lowercase_extension:
  "(c \<in> set (m_vpConverters io) \<and> e \<in> set (SupportedExt c) \<and> (must \<longrightarrow> CanExportData c) \<longrightarrow>
      (\<exists>i. GetConverterForExt io (ToLowerCase e) must = Some i)) \<and>
   (\<forall>i. GetConverterForExt io x must = Some i \<longrightarrow>
      i < length (m_vpConverters io) \<and>
      (must \<longrightarrow> CanExportData (m_vpConverters io ! i)) \<and>
      (\<exists>e' \<in> set (SupportedExt (m_vpConverters io ! i)). x = ToLowerCase e') \<and>
      ToLowerCase x = x)"
proof (intro conjI impI allI)
  assume "c \<in> set (m_vpConverters io) \<and> e \<in> set (SupportedExt c) \<and> (must \<longrightarrow> CanExportData c)"
  then show "\<exists>i. GetConverterForExt io (ToLowerCase e) must = Some i"
    unfolding GetConverterForExt_def by (intro lookup_from_finds [of c]) auto
next
  fix i
  assume "GetConverterForExt io x must = Some i"
  then have found: "GetConverterForExt_from 0 (m_vpConverters io) x must = Some i"
    by (simp add: GetConverterForExt_def)
  note f = lookup_from_Some [OF found]
  from f show "i < length (m_vpConverters io)" by simp
  { assume must with f show "CanExportData (m_vpConverters io ! i)" by simp }
  from f show ex: "\<exists>e' \<in> set (SupportedExt (m_vpConverters io ! i)). x = ToLowerCase e'"
    by auto
  then show "ToLowerCase x = x" by (auto simp: ToLowerCase_idem)
qed

theorem lookup_by_lowercase_extension_witness:
  "GetConverterForExt (IOManager_ctor [dat_converter, nrrd_converter] 256 4) ''nhdr'' True = Some 1"
proof -
  let ?io = "IOManager_ctor [dat_converter, nrrd_converter] 256 4"
  have pre: "nrrd_converter \<in> set (m_vpConverters ?io) \<and>
             ''NHDR'' \<in> set (SupportedExt nrrd_converter) \<and>
             (True \<longrightarrow> CanExportData nrrd_converter)"
    by (simp add: IOManager_ctor_def nrrd_converter_def)
  have low: "ToLowerCase ''NHDR'' = ''nhdr''"
    by (simp add: ToLowerCase_def)
  note t = lookup_by_lowercase_extension [of nrrd_converter ?io "''NHDR''" True "''nhdr''"]
  from t pre low obtain i where i: "GetConverterForExt ?io ''nhdr'' True = Some i"
    by auto
  with t have "\<exists>e' \<in> set (SupportedExt (m_vpConverters ?io ! i)). ''nhdr'' = ToLowerCase e'"
    and "i < length (m_vpConverters ?io)"
    by blast+
  then have "i = 1"
    by (cases i) (auto simp: IOManager_ctor_def dat_converter_def nrrd_converter_def ToLowerCase_def)
  with i show ?thesis by simp
qed

subsection \<open>Stack conversion\<close>

lemma length_rgb_to_rgba: "length (rgb_to_rgba v) = (length v div 3) * 4"
  by (induction v rule: rgb_to_rgba.induct) simp_all

lemma rgb_to_rgba_groups:
  "k < length v div 3 \<Longrightarrow>
     rgb_to_rgba v ! (4 * k) = v ! (3 * k) \<and>
     rgb_to_rgba v ! (4 * k + 1) = v ! (3 * k + 1) \<and>
     rgb_to_rgba v ! (4 * k + 2) = v ! (3 * k + 2) \<and>
     rgb_to_rgba v ! (4 * k + 3) = 255"
proof (induction v arbitrary: k rule: rgb_to_rgba.induct)
  case (1 r g b rest)
  show ?case
  proof (cases k)
    case 0
    then show ?thesis by simp
  next
    case (Suc j)
    with "1.prems" have "j < length rest div 3" by simp
    from "1.IH" [OF this] Suc show ?thesis by (simp add: numeral_eq_Suc)
  qed
qed simp_all

text \<open>
  A DICOM stack of a single 3-component slice that is neither JPEG-encoded nor
  byte-swapped is padded as intended: the raw file is the padded payload.
\<close>

lemma single_slice_rgb_padded:
  assumes "m_strFileType pStack = ''DICOM''" and "m_Elements pStack = [e]"
    and "m_iComponentCount pStack = 3" and "\<not> m_bIsJPEGEncoded pStack"
    and "m_bIsBigEndian pStack = IsBigEndian env"
    and "temp_file_opens env (tempdir @ GetFilename env target @ ''~'')"
  shows "map_sum id raw_file (ConvertDataset_stack env pStack target tempdir bs ov q)
           = Inr (rgb_to_rgba (GetData e))"
  using assms
  by (simp add: ConvertDataset_stack_def dicom_element_def Let_def split: prod.splits)

text \<open>
  Claim C7 (the code departs from it). The padding is meant for every slice of a
  3-component DICOM stack, but the loop sets \<^verbatim>\<open>m_iComponentCount\<close> to 4 while it pads
  the first slice, so the test \<^verbatim>\<open>m_iComponentCount == 3\<close> fails for every later slice
  and those are written unpadded. For two slices of one voxel \<open>(1,2,3)\<close> each, the raw
  file has 7 bytes, \<open>01 02 03 FF 01 02 03\<close>, not the 8 bytes \<open>01 02 03 FF 01 02 03 FF\<close>,
  and the builder is told that the data has 4 components.
\<close>

theorem two_slice_rgb_stack_not_padded:
  "map_sum id (\<lambda>c. (raw_file c, arg_iComponentCount (builder_args c)))
     (ConvertDataset_stack example_env two_slice_rgb_stack ''out.uvf'' ''/tmp/'' 256 4 False)
   = Inr ([1, 2, 3, 255, 1, 2, 3], 4)"
  by (simp add: ConvertDataset_stack_def example_env_def two_slice_rgb_stack_def rgb_slice_def
        dicom_element_def GetDataSize_def resize_vec_def)

text \<open>
  Claim C10. For a stack whose file type is "IMAGE", the conversion reaches the
  RAW-to-UVF builder whenever the temporary file can be created and the stack has an
  element, and the signedness flag it passes is \<^verbatim>\<open>m_iComponentCount >= 32\<close>: it does not
  depend on the allocated bit width, and it is false for the component counts 1, 3
  and 4.
\<close>

theorem image_stack_signedness:
  assumes "m_strFileType pStack = ''IMAGE''"
  shows "(temp_file_opens env (tempdir @ GetFilename env target @ ''~'') \<and>
          m_Elements pStack \<noteq> [] \<longrightarrow>
            (\<exists>c. ConvertDataset_stack env pStack target tempdir bs ov q = Inr c)) \<and>
         (\<forall>c. ConvertDataset_stack env pStack target tempdir bs ov q = Inr c \<longrightarrow>
            arg_bSigned (builder_args c) = (m_iComponentCount pStack \<ge> 32) \<and>
            (m_iComponentCount pStack \<in> {1, 3, 4} \<longrightarrow> \<not> arg_bSigned (builder_args c)))"
  using assms
  by (auto simp: ConvertDataset_stack_def Let_def split: prod.splits if_splits)

theorem image_stack_signedness_witness:
  "m_strFileType wide_image_stack = ''IMAGE'' \<and>
   m_iAllocated wide_image_stack = 32 \<and>
   (\<exists>c. ConvertDataset_stack example_env wide_image_stack ''out.uvf'' ''/tmp/'' 256 4 False = Inr c
        \<and> \<not> arg_bSigned (builder_args c))"
proof -
  have ty: "m_strFileType wide_image_stack = ''IMAGE''"
    by (simp add: wide_image_stack_def)
  have pre: "temp_file_opens example_env (''/tmp/'' @ GetFilename example_env ''out.uvf'' @ ''~'') \<and>
             m_Elements wide_image_stack \<noteq> []"
    by (simp add: example_env_def wide_image_stack_def)
  have cnt: "m_iComponentCount wide_image_stack \<in> {1, 3, 4}"
    by (simp add: wide_image_stack_def)
  note t = image_stack_signedness
    [OF ty, of example_env "''/tmp/''" "''out.uvf''" 256 4 False]
  from t pre obtain c where
    c: "ConvertDataset_stack example_env wide_image_stack ''out.uvf'' ''/tmp/'' 256 4 False = Inr c"
    by blast
  from t c cnt have "\<not> arg_bSigned (builder_args c)" by blast
  with c ty show ?thesis by (simp add: wide_image_stack_def)
qed

subsection \<open>The expression evaluator\<close>

lemma IdentifyType_loop_eq:
  "IdentifyType_loop uvf (bw, fl, sg) =
     (Max (insert bw (GetBitWidth ` set uvf)),
      fl \<or> (\<exists>u \<in> set uvf. GetIsFloat u),
      sg \<or> (\<exists>u \<in> set uvf. GetIsSigned u))"
proof (induction uvf arbitrary: bw fl sg)
  case Nil
  then show ?case by simp
next
  case (Cons u uvf)
  have m: "Max (insert (max bw (GetBitWidth u)) (GetBitWidth ` set uvf)) =
           Max (insert bw (insert (GetBitWidth u) (GetBitWidth ` set uvf)))"
  proof -
    have "Max (insert bw (insert (GetBitWidth u) (GetBitWidth ` set uvf))) =
          max bw (Max (insert (GetBitWidth u) (GetBitWidth ` set uvf)))"
      by (rule Max_insert) simp_all
    also have "\<dots> =
        max bw (max (GetBitWidth u) (Max (insert (GetBitWidth u) (GetBitWidth ` set uvf))))"
      by (simp add: max_absorb2)
    finally show ?thesis
      by (cases "set uvf = {}") (simp_all add: max.assoc)
  qed
  show ?case
    by (simp add: Cons.IH m) (auto simp: max_def)
qed

text \<open>
  \<^verbatim>\<open>IdentifyType\<close> yields the largest bit width of the datasets (0 for none), whether
  one of them holds floating-point data, and whether one of them holds signed data.
\<close>

lemma IdentifyType_widest:
  "IdentifyType uvf =
     (Max (insert 0 (GetBitWidth ` set uvf)),
      (\<exists>u \<in> set uvf. GetIsFloat u),
      (\<exists>u \<in> set uvf. GetIsSigned u))"
  by (simp add: IdentifyType_def IdentifyType_loop_eq)

text \<open>The datasets opened are those that the factory creates for the volumes.\<close>

lemma open_volumes_Create:
  "open_volumes env fs acc = Inr uvf \<Longrightarrow>
     \<exists>us. uvf = acc @ us \<and> map (Create env) fs = map Some us"
proof (induction fs arbitrary: acc)
  case Nil
  then show ?case by simp
next
  case (Cons f fs)
  from Cons.prems obtain u where u: "Create env f = Some u"
    and rest: "open_volumes env fs (acc @ [u]) = Inr uvf"
    by (auto split: option.splits)
  from Cons.IH [OF rest] obtain us where
    "uvf = (acc @ [u]) @ us" and "map (Create env) fs = map Some us"
    by blast
  with u have "uvf = acc @ (u # us) \<and> map (Create env) (f # fs) = map Some (u # us)"
    by simp
  then show ?case by blast
qed

text \<open>
  Reading, evaluating and writing bricks leaves the element type of the output block as
  it is.
\<close>

lemma ReadAndEvalBrick_type:
  assumes "ReadAndEvalBrick env T tree uvfs iters out = Inr out'"
  shows "ulElementBitSize (fst out') = ulElementBitSize (fst out) \<and>
         bSignedElement (fst out') = bSignedElement (fst out)"
  using assms
  by (auto simp: ReadAndEvalBrick_def SetData_def Let_def
        split: sum.splits prod.splits list.splits option.splits if_splits)

lemma volume_loop_type:
  "volume_loop env tree uvf viters widest idxs out = Inr out' \<Longrightarrow>
     ulElementBitSize (fst out') = ulElementBitSize (fst out) \<and>
     bSignedElement (fst out') = bSignedElement (fst out)"
proof (induction env tree uvf viters widest idxs out rule: volume_loop.induct)
  case (1 env tree uvf viters bit_width is_float is_signed out)
  then show ?case by simp
next
  case (2 env tree uvf viters bit_width is_float is_signed i rest out)
  show ?case
  proof (cases "destination_type bit_width is_float is_signed")
    case (Inl msg)
    with 2 show ?thesis by simp
  next
    case (Inr T)
    with "2.prems" obtain mid where
      r: "ReadAndEvalBrick env T tree uvf viters out = Inr mid"
      and l: "volume_loop env tree uvf viters (bit_width, is_float, is_signed) rest mid = Inr out'"
      by (auto split: sum.splits)
    from "2.IH"(2) [OF Inr r l] ReadAndEvalBrick_type [OF r] show ?thesis by simp
  qed
qed

lemma brick_loop_type:
  "brick_loop env tree uvf widest viters out = Inr out' \<Longrightarrow>
     ulElementBitSize (fst out') = ulElementBitSize (fst out) \<and>
     bSignedElement (fst out') = bSignedElement (fst out)"
proof (induction env tree uvf widest viters out rule: brick_loop.induct)
  case (1 env tree uvf widest viters out)
  from "1.prems" obtain u0 us it0 its where
    uvf: "uvf = u0 # us" and viters: "viters = it0 # its"
    by (auto simp: brick_loop.simps [of env tree uvf] split: list.splits)
  show ?case
  proof (cases "it0 = length (Bricks u0)")
    case True
    with "1.prems" uvf viters show ?thesis
      by (simp add: brick_loop.simps [of env tree "u0 # us"])
  next
    case False
    with "1.prems" uvf viters obtain mid viters' where
      v: "volume_loop env tree uvf viters widest [0..<length uvf] out = Inr mid"
      and a: "advance_all uvf viters = Some viters'"
      and b: "brick_loop env tree uvf widest viters' mid = Inr out'"
      by (auto simp: brick_loop.simps [of env tree "u0 # us" widest "it0 # its"]
            split: sum.splits option.splits)
    from "1.IH" [OF uvf viters False v a b] volume_loop_type [OF v] show ?thesis by simp
  qed
qed

text \<open>The definitions by which the evaluator is computed on the example inputs.\<close>

lemmas evaluator_example_defs =
  EvaluateExpression_def MergeableDatasets_def IdentifyType_def SetTypeToUShort_def assign_def
  ResetFile_def SetData_def ValidBrickIndex_def brick_loop.simps advance_all_def
  destination_type_def ReadAndEvalBrick_def TypedRead_def CreateUVFFromRDB_def MaxMin_def
  NDBrickIndex_def ValidLOD_def brick_entry_def get_brick_minmax_def minmax_input_def
  unsigned_type_def std_min_def std_max_def
  example_env_def example_dataset_def float_dataset_def two_level_block_def one_brick_level_def
  int_block_def sum_of_two_def Let_def upt_rec

text \<open>
  Claim C5. Whenever \<^verbatim>\<open>EvaluateExpression\<close> completes, the widest type it has computed
  for the volumes it opened is the largest of their bit widths, whether one of them
  holds floating-point data, and whether one of them holds signed data; and the raster
  block it adds to the output file has 16-bit unsigned elements, whatever that widest
  type is. The type set with \<^verbatim>\<open>SetTypeToUShort\<close> is still the block's after the
  assignment of the first volume's block, the new file and the writing of the bricks.
\<close>

theorem evaluator_output_is_ushort:
  assumes "EvaluateExpression env expr volumes = Inr r"
  shows "map (Create env) volumes = map Some (input_datasets r) \<and>
         widest_type r =
           (Max (GetBitWidth ` set (input_datasets r)),
            (\<exists>u \<in> set (input_datasets r). GetIsFloat u),
            (\<exists>u \<in> set (input_datasets r). GetIsSigned u)) \<and>
         ulElementBitSize (out_rdb r) = 16 \<and> \<not> bSignedElement (out_rdb r)"
proof -
  from assms obtain uvf rdb1 rdb errs where
    vol: "volumes \<noteq> []" and op: "open_volumes env volumes [] = Inr uvf"
    and loop: "brick_loop env expr uvf (IdentifyType uvf) (map (\<lambda>u. 0) uvf)
                 (ResetFile (assign (SetTypeToUShort (new_RasterDataBlock env)) rdb1), []) =
               Inr (rdb, errs)"
    and r: "out_rdb r = rdb" "widest_type r = IdentifyType uvf" "input_datasets r = uvf"
    by (auto simp: EvaluateExpression_def Let_def
          split: if_splits sum.splits option.splits prod.splits)
  from open_volumes_Create [OF op] have cr: "map (Create env) volumes = map Some uvf"
    by simp
  with vol have ne: "uvf \<noteq> []" by auto
  then have "Max (insert 0 (GetBitWidth ` set uvf)) = Max (GetBitWidth ` set uvf)"
    by (simp add: max_absorb2)
  with r have w: "widest_type r =
      (Max (GetBitWidth ` set (input_datasets r)),
       (\<exists>u \<in> set (input_datasets r). GetIsFloat u),
       (\<exists>u \<in> set (input_datasets r). GetIsSigned u))"
    by (simp add: IdentifyType_widest)
  from brick_loop_type [OF loop] r have
    "ulElementBitSize (out_rdb r) = 16 \<and> \<not> bSignedElement (out_rdb r)"
    by (simp add: ResetFile_def assign_def SetTypeToUShort_def)
  with cr r w show ?thesis by simp
qed

text \<open>
  An 8-bit unsigned volume and a 32-bit floating-point volume of the same geometry: the
  widest type is 32-bit signed floating point, the output block is 16-bit unsigned.
\<close>

theorem evaluator_output_is_ushort_witness:
  "\<exists>r. EvaluateExpression example_env ''v0+v1'' [''a.uvf'', ''f.uvf''] = Inr r \<and>
       input_datasets r = [example_dataset True 8 (32, 32, 32) True, float_dataset] \<and>
       widest_type r = (32, True, True) \<and>
       ulElementBitSize (out_rdb r) = 16 \<and> \<not> bSignedElement (out_rdb r)"
proof -
  have "\<exists>r. EvaluateExpression example_env ''v0+v1'' [''a.uvf'', ''f.uvf''] = Inr r"
    by (simp add: evaluator_example_defs)
  then obtain r where
    r: "EvaluateExpression example_env ''v0+v1'' [''a.uvf'', ''f.uvf''] = Inr r" ..
  note t = evaluator_output_is_ushort [OF r]
  from t have ds: "input_datasets r = [example_dataset True 8 (32, 32, 32) True, float_dataset]"
    by (auto simp: example_env_def)
  from t ds have "widest_type r = (32, True, True)"
    by (simp add: example_dataset_def float_dataset_def)
  with r t ds show ?thesis by blast
qed

lemma mergeable_levels_iff:
  "mergeable_levels a b ts levels \<longleftrightarrow>
     (levels = [] \<or> GetDomainSize a 0 0 = GetDomainSize b 0 0) \<and>
     (\<forall>level \<in> set levels. GetBrickCount a level ts = GetBrickCount b level ts)"
  by (induction levels) auto

lemma mergeable_timesteps_iff:
  "mergeable_timesteps a b LoDs tss \<longleftrightarrow> (\<forall>ts \<in> set tss. mergeable_levels a b ts [0..<LoDs])"
  by (induction tss) auto

text \<open>
  What \<^verbatim>\<open>MergeableDatasets\<close> decides: equal component counts, brick overlaps,
  numbers of timesteps and LOD counts, equal brick counts at every LOD and timestep,
  and equal domain sizes at LOD 0 and timestep 0 (compared only when there is a
  timestep and a LOD). The domain sizes at the other LODs and timesteps are not
  compared.
\<close>

lemma MergeableDatasets_iff:
  "MergeableDatasets a b \<longleftrightarrow>
     GetComponentCount a = GetComponentCount b \<and>
     GetBrickOverlapSize a = GetBrickOverlapSize b \<and>
     GetNumberOfTimesteps a = GetNumberOfTimesteps b \<and>
     GetLODLevelCount a = GetLODLevelCount b \<and>
     (0 < GetNumberOfTimesteps a \<and> 0 < GetLODLevelCount a \<longrightarrow>
        GetDomainSize a 0 0 = GetDomainSize b 0 0) \<and>
     (\<forall>ts < GetNumberOfTimesteps a. \<forall>level < GetLODLevelCount a.
        GetBrickCount a level ts = GetBrickCount b level ts)"
  by (auto simp: MergeableDatasets_def mergeable_timesteps_iff mergeable_levels_iff)

text \<open>
  Claim C6 (the code departs from it). The loop of \<^verbatim>\<open>MergeableDatasets\<close> runs over
  every timestep and LOD but asks for the domain size with no argument, so it compares
  the domain sizes at LOD 0 and timestep 0 each time. The volumes \<open>a.uvf\<close> and
  \<open>c.uvf\<close> agree in everything that is compared and differ in their domain size at
  LOD 1 (\<open>32\<^sup>3\<close> and \<open>22\<^sup>3\<close> voxels); the evaluator does not raise the unmergeable
  error and goes on with both.
\<close>

theorem coarse_domain_mismatch_accepted:
  "GetDomainSize (example_dataset True 8 (32, 32, 32) True) 1 0 \<noteq>
     GetDomainSize (example_dataset True 8 (22, 22, 22) True) 1 0 \<and>
   map_sum id input_datasets (EvaluateExpression example_env ''v0+v1'' [''a.uvf'', ''c.uvf'']) =
     Inr [example_dataset True 8 (32, 32, 32) True, example_dataset True 8 (22, 22, 22) True]"
  by (simp add: evaluator_example_defs)

subsection \<open>The stats builder\<close>

lemma Min_insert_min:
  fixes a b :: "'k::linorder"
  assumes "finite S"
  shows "Min (insert (min a b) S) = Min (insert a (insert b S))"
  using assms by (cases "S = {}") (simp_all add: min.assoc)

lemma Max_insert_max:
  fixes a b :: "'k::linorder"
  assumes "finite S"
  shows "Max (insert (max a b) S) = Max (insert a (insert b S))"
  using assms by (cases "S = {}") (simp_all add: max.assoc)

lemma minmax_loop_key:
  fixes key :: "'a \<Rightarrow> 'k::linorder"
  assumes ord: "\<And>a b. less_T a b \<longleftrightarrow> key a < key b"
  shows "key (fst (minmax_loop less_T data (mn, mx))) = Min (insert (key mn) (key ` set data)) \<and>
         key (snd (minmax_loop less_T data (mn, mx))) = Max (insert (key mx) (key ` set data))"
proof (induction data arbitrary: mn mx)
  case Nil
  then show ?case by simp
next
  case (Cons x xs)
  have lo: "key (std_min less_T x mn) = min (key mn) (key x)"
    by (auto simp: std_min_def ord min_def)
  have hi: "key (std_max less_T x mx) = max (key mx) (key x)"
    by (auto simp: std_max_def ord max_def)
  show ?case
    by (simp add: Cons.IH lo hi Min_insert_min Max_insert_max)
qed

lemma track_max_eq: "track_max minmax m = Max (insert m (vec_y ` set minmax))"
proof (induction minmax arbitrary: m)
  case Nil
  then show ?case by simp
next
  case (Cons i rest)
  show ?case by (simp add: Cons.IH Max_insert_max)
qed

lemma hist2d_max_at_least_DBL_MAX:
  assumes "CreateUVFFromRDB rdb = Inr blocks"
  shows "DBL_MAX \<le> hist2d_max_val blocks"
    and "(\<forall>v \<in> set (mmdb blocks). vec_y v \<le> DBL_MAX) \<Longrightarrow> hist2d_max_val blocks = DBL_MAX"
proof -
  from assms have h: "hist2d_max_val blocks = Max (insert DBL_MAX (vec_y ` set (mmdb blocks)))"
    by (auto simp: CreateUVFFromRDB_def track_max_eq split: sum.splits)
  show "DBL_MAX \<le> hist2d_max_val blocks"
    by (simp add: h)
  show "hist2d_max_val blocks = DBL_MAX" if "\<forall>v \<in> set (mmdb blocks). vec_y v \<le> DBL_MAX"
    unfolding h using that by (intro Max_eqI) auto
qed

lemma brick_minmax_unsigned:
  fixes data :: "'a::len word list"
  assumes "data \<noteq> []"
  shows "get_brick_minmax unsigned_type data =
           (real_of_int (Min (uint ` set data)), real_of_int (Max (insert 1 (uint ` set data))),
            - DBL_MAX, DBL_MAX)"
proof -
  have ord: "\<And>a b :: 'a word. a < b \<longleftrightarrow> uint a < uint b"
    by (simp add: word_less_def)
  note k = minmax_loop_key [of "\<lambda>a b :: 'a word. a < b" uint, OF ord, of data "- 1" "- (- 1)"]
  have top: "\<And>x :: 'a word. uint x \<le> uint (- 1 :: 'a word)"
    by (metis word_order.extremum word_le_def)
  from assms have ne: "uint ` set data \<noteq> {}" by simp
  then have "Min (uint ` set data) \<in> uint ` set data" by (intro Min_in) simp_all
  then obtain x :: "'a word" where "Min (uint ` set data) = uint x" by auto
  with top have "Min (uint ` set data) \<le> uint (- 1 :: 'a word)" by simp
  with ne have "Min (insert (uint (- 1 :: 'a word)) (uint ` set data)) = Min (uint ` set data)"
    by (simp add: min_absorb2)
  with k show ?thesis
    by (simp add: get_brick_minmax_def minmax_input_def unsigned_type_def Let_def
          del: of_int_uint)
qed

lemma brick_minmax_signed:
  fixes data :: "'a::len word list"
  shows "get_brick_minmax signed_type data =
           (real_of_int (Min (insert (sint (2 ^ (LENGTH('a) - 1) - 1 :: 'a word)) (sint ` set data))),
            real_of_int (Max (insert (sint (- (2 ^ (LENGTH('a) - 1) - 1) :: 'a word)) (sint ` set data))),
            - DBL_MAX, DBL_MAX)"
proof -
  have ord: "\<And>a b :: 'a word. a <s b \<longleftrightarrow> sint a < sint b"
    by (simp add: word_sless_alt)
  note k = minmax_loop_key [of "\<lambda>a b :: 'a word. a <s b" sint, OF ord, of data
      "2 ^ (LENGTH('a) - 1) - 1" "- (2 ^ (LENGTH('a) - 1) - 1)"]
  then show ?thesis
    by (simp add: get_brick_minmax_def minmax_input_def signed_type_def Let_def
          del: of_int_sint)
qed

lemma brick_minmax_int8:
  fixes data :: "8 word list"
  assumes "data \<noteq> []"
  shows "get_brick_minmax signed_type data =
           (real_of_int (Min (sint ` set data)), real_of_int (Max (insert (- 127) (sint ` set data))),
            - DBL_MAX, DBL_MAX)"
proof -
  have top: "sint x \<le> 127" for x :: "8 word"
    using sint_lt [of x] by simp
  from assms have ne: "sint ` set data \<noteq> {}" by simp
  then have "Min (sint ` set data) \<in> sint ` set data" by (intro Min_in) simp_all
  then obtain x :: "8 word" where "Min (sint ` set data) = sint x" by auto
  with top have "Min (sint ` set data) \<le> 127" by simp
  with ne have "Min (insert 127 (sint ` set data)) = Min (sint ` set data)"
    by (simp add: min_absorb2)
  then show ?thesis
    by (simp add: brick_minmax_signed)
qed

text \<open>
  Claim C1 (the code departs from it). \<^verbatim>\<open>minmax_input\<close> starts its running maximum
  at \<^verbatim>\<open>-std::numeric_limits<T>::max()\<close>, which is not the least value of an integer
  type: converted back to an unsigned type it is 1, and for a signed type it is one
  above the least value. The minimum of a non-empty brick is right; the maximum is the
  greater of the voxels' maximum and that start value (lemmas \<open>brick_minmax_unsigned\<close>
  and \<open>brick_minmax_int8\<close>). So a brick of unsigned 8-bit voxels that are all 0 gets
  the maximum 1, and a brick of signed 8-bit voxels that are all \<open>-128\<close> gets the
  maximum \<open>-127\<close>.
\<close>

theorem zero_brick_maximum_is_one:
  "MaxMin (int_block 8 False [0, 0, 0, 0]) = Inr [(0, 1, - DBL_MAX, DBL_MAX)] \<and>
   MaxMin (int_block 8 True [- 128, - 128]) = Inr [(- 128, - 127, - DBL_MAX, DBL_MAX)]"
  by (simp add: MaxMin_def int_block_def one_brick_level_def NDBrickIndex_def ValidBrickIndex_def
        ValidLOD_def brick_entry_def get_brick_minmax_def minmax_input_def unsigned_type_def
        signed_type_def std_min_def std_max_def word_sless_alt)

text \<open>
  Claim C2 (the code departs from it). \<^verbatim>\<open>max_val\<close> starts as \<^verbatim>\<open>DBL_MAX\<close> and is only
  ever raised, so the maximum passed to the 2D histogram is \<^verbatim>\<open>DBL_MAX\<close> (lemma
  \<open>hist2d_max_at_least_DBL_MAX\<close>), not the greatest per-brick maximum. For a block of
  one brick with the unsigned 8-bit voxels 5 and 7 the brick's maximum is 7 and the
  histogram is computed with \<^verbatim>\<open>DBL_MAX\<close>.
\<close>

theorem histogram_maximum_is_DBL_MAX:
  "map_sum id (\<lambda>blocks. (mmdb blocks, hist2d_max_val blocks))
     (CreateUVFFromRDB (int_block 8 False [5, 7]))
     = Inr ([(5, 7, - DBL_MAX, DBL_MAX)], DBL_MAX) \<and> 7 < DBL_MAX"
  by (simp add: CreateUVFFromRDB_def MaxMin_def int_block_def one_brick_level_def NDBrickIndex_def
        ValidBrickIndex_def ValidLOD_def brick_entry_def get_brick_minmax_def minmax_input_def
        unsigned_type_def std_min_def std_max_def vec_y_def DBL_MAX_def)

subsection \<open>Merging datasets\<close>

lemmas merge_example_defs =
  MergeDatasets_def merge_input_body_def merge_uvf_input_def merge_other_input_def
  merge_and_convert_def merger_type_def identify_converters_def incompatible_def report_def
  DATA_TYPE_CHECK_def volume_def element_count_def FLOATVECTOR3_def ToUpperCase_def Let_def
  example_env_def example_io_def merge_of_def dat_converter_def example_dataset_def
  example_volume_def file_ext_def file_name_def IOManager_ctor_def

lemma try_converters_eq:
  "try_converters cs f t n (b, out, fs) =
     (case first_conversion cs f t n of
        Some r \<Rightarrow> (True, r, insert (out_strIntermediateFile r) fs)
      | None \<Rightarrow> (if cs = [] then b else False, out, fs))"
  by (induction cs arbitrary: b) (auto split: option.splits)

lemma DATA_TYPE_CHECK_fields:
  "bRAWCreated (DATA_TYPE_CHECK d m st) = (bRAWCreated st \<and> \<not> d)"
  "G (DATA_TYPE_CHECK d m st) = G st"
  "files (DATA_TYPE_CHECK d m st) = files st"
  "vIntermediateFiles (DATA_TYPE_CHECK d m st) = vIntermediateFiles st"
  by (simp_all add: DATA_TYPE_CHECK_def report_def)

lemma report_fields:
  "bRAWCreated (report m st) = bRAWCreated st"
  "G (report m st) = G st"
  "files (report m st) = files st"
  "vIntermediateFiles (report m st) = vIntermediateFiles st"
  "messages (report m st) = messages st @ [m]"
  by (simp_all add: report_def)

text \<open>The loop body on an input that converts.\<close>

lemma merge_input_body_converts:
  assumes conv: "input_converts env io t n i inp"
    and flag: "i = 0 \<or> bRAWCreated st"
  shows "\<exists>nfo st'. input_info env io t n inp = Some nfo \<and>
           ((merge_input_body env io t n i inp st = Break st' \<and> i \<noteq> 0 \<and>
               incompatible (G st) nfo \<and> \<not> bRAWCreated st' \<and>
               Error ''Incompatible data types.'' \<in> set (messages st')) \<or>
            (merge_input_body env io t n i inp st = Continue st' \<and>
               (i = 0 \<or> \<not> incompatible (G st) nfo) \<and> bRAWCreated st' \<and>
               G st' = (if i = 0 then nfo else G st)))"
proof (cases "is_uvf_input env inp")
  case True
  let ?v = "UVFDataset_ctor env (input_strFilename inp)"
  from conv True have op: "IsOpen ?v"
    and ex: "Export ?v 0 (t @ GetFilename env (input_strFilename inp) @ ToString_rand env i @ ''.raw'')"
    by (auto simp: input_converts_def split: if_splits)
  have nfo: "input_info env io t n inp = Some (uvf_info env ?v)"
    using True by (simp add: input_info_def)
  show ?thesis
  proof (cases "i = 0")
    case i0: True
    with True op ex nfo show ?thesis
      by (simp add: merge_input_body_def is_uvf_input_def merge_uvf_input_def uvf_info_def Let_def)
  next
    case False
    with flag have b: "bRAWCreated st" by simp
    show ?thesis
    proof (cases "incompatible (G st) (uvf_info env ?v)")
      case inc: True
      with True op False b nfo show ?thesis
        by (simp add: merge_input_body_def is_uvf_input_def merge_uvf_input_def Let_def
              DATA_TYPE_CHECK_fields report_fields)
           (auto simp: incompatible_def uvf_info_def)
    next
      case comp: False
      with True op ex False b nfo show ?thesis
        by (simp add: merge_input_body_def is_uvf_input_def merge_uvf_input_def Let_def
              DATA_TYPE_CHECK_fields report_fields)
           (auto simp: incompatible_def uvf_info_def)
    qed
  qed
next
  case False
  from conv False obtain r where r: "identified_conversion io t n inp = Some r"
    by (auto simp: input_converts_def split: option.splits)
  have nfo: "input_info env io t n inp = Some (out_info r)"
    using False r by (simp add: input_info_def)
  from r have fc: "first_conversion (identify_converters (input_strFilename inp) (m_vpConverters io))
      (input_strFilename inp) t n = Some r"
    by (simp add: identified_conversion_def)
  show ?thesis
    using False nfo
    by (simp add: merge_input_body_def is_uvf_input_def merge_other_input_def Let_def
          try_converters_eq fc report_fields)
qed


lemma incompatible_refl: "\<not> incompatible g g"
  by (simp add: incompatible_def)

lemma compatible_trans:
  "\<not> incompatible g x \<Longrightarrow> \<not> incompatible g y \<Longrightarrow> \<not> incompatible x y"
  by (simp add: incompatible_def)

text \<open>The loop over inputs that all convert.\<close>

lemma merge_inputs_converts:
  assumes conv: "\<forall>k < length rest. input_converts env io t n (i + k) (rest ! k)"
    and flag: "i = 0 \<or> bRAWCreated st"
    and ref: "i \<noteq> 0 \<Longrightarrow> G st = g"
    and first: "i = 0 \<Longrightarrow> rest \<noteq> [] \<Longrightarrow> input_info env io t n (hd rest) = Some g"
  shows "(\<exists>st'. merge_inputs env io t n i rest st = Continue st' \<and>
              (rest \<noteq> [] \<longrightarrow> bRAWCreated st') \<and>
              (\<forall>inp \<in> set rest. \<exists>nfo. input_info env io t n inp = Some nfo \<and>
                                       \<not> incompatible g nfo)) \<or>
         (\<exists>st'. merge_inputs env io t n i rest st = Break st' \<and>
              \<not> bRAWCreated st' \<and>
              Error ''Incompatible data types.'' \<in> set (messages st') \<and>
              (\<exists>inp \<in> set rest. \<exists>nfo. input_info env io t n inp = Some nfo \<and>
                                       incompatible g nfo))"
  using conv flag ref first
proof (induction rest arbitrary: i st)
  case Nil
  then show ?case by simp
next
  case (Cons inp rest)
  from Cons.prems(1) have c0: "input_converts env io t n i inp"
    by (metis add.right_neutral length_Cons nth_Cons_0 zero_less_Suc)
  from merge_input_body_converts [OF c0 Cons.prems(2)]
  obtain nfo st' where nfo: "input_info env io t n inp = Some nfo"
    and body: "(merge_input_body env io t n i inp st = Break st' \<and> i \<noteq> 0 \<and>
               incompatible (G st) nfo \<and> \<not> bRAWCreated st' \<and>
               Error ''Incompatible data types.'' \<in> set (messages st')) \<or>
            (merge_input_body env io t n i inp st = Continue st' \<and>
               (i = 0 \<or> \<not> incompatible (G st) nfo) \<and> bRAWCreated st' \<and>
               G st' = (if i = 0 then nfo else G st))"
    by blast
  from body show ?case
  proof
    assume b: "merge_input_body env io t n i inp st = Break st' \<and> i \<noteq> 0 \<and>
               incompatible (G st) nfo \<and> \<not> bRAWCreated st' \<and>
               Error ''Incompatible data types.'' \<in> set (messages st')"
    with Cons.prems(3) have "incompatible g nfo" by simp
    with b nfo show ?thesis by auto
  next
    assume c: "merge_input_body env io t n i inp st = Continue st' \<and>
               (i = 0 \<or> \<not> incompatible (G st) nfo) \<and> bRAWCreated st' \<and>
               G st' = (if i = 0 then nfo else G st)"
    have g': "G st' = g"
    proof (cases "i = 0")
      case True
      with Cons.prems(4) nfo have "nfo = g" by simp
      with c True show ?thesis by simp
    next
      case False
      with c Cons.prems(3) show ?thesis by simp
    qed
    have ok: "\<not> incompatible g nfo"
    proof (cases "i = 0")
      case True
      with Cons.prems(4) nfo have "nfo = g" by simp
      then show ?thesis by (simp add: incompatible_refl)
    next
      case False
      with c Cons.prems(3) show ?thesis by simp
    qed
    have conv': "\<forall>k < length rest. input_converts env io t n (Suc i + k) (rest ! k)"
    proof (intro allI impI)
      fix k assume "k < length rest"
      then have "Suc k < length (inp # rest)" by simp
      with Cons.prems(1) have "input_converts env io t n (i + Suc k) ((inp # rest) ! Suc k)"
        by blast
      then show "input_converts env io t n (Suc i + k) (rest ! k)" by simp
    qed
    from c have flag': "Suc i = 0 \<or> bRAWCreated st'" by simp
    note ih = Cons.IH [OF conv' flag', of , OF g']
    have step: "merge_inputs env io t n i (inp # rest) st = merge_inputs env io t n (Suc i) rest st'"
      using c by simp
    from ih have
      "(\<exists>st''. merge_inputs env io t n (Suc i) rest st' = Continue st'' \<and>
              (rest \<noteq> [] \<longrightarrow> bRAWCreated st'') \<and>
              (\<forall>inp \<in> set rest. \<exists>nfo. input_info env io t n inp = Some nfo \<and>
                                       \<not> incompatible g nfo)) \<or>
       (\<exists>st''. merge_inputs env io t n (Suc i) rest st' = Break st'' \<and>
              \<not> bRAWCreated st'' \<and>
              Error ''Incompatible data types.'' \<in> set (messages st'') \<and>
              (\<exists>inp \<in> set rest. \<exists>nfo. input_info env io t n inp = Some nfo \<and>
                                       incompatible g nfo))"
      by simp
    then show ?thesis
    proof
      assume "\<exists>st''. merge_inputs env io t n (Suc i) rest st' = Continue st'' \<and>
              (rest \<noteq> [] \<longrightarrow> bRAWCreated st'') \<and>
              (\<forall>inp \<in> set rest. \<exists>nfo. input_info env io t n inp = Some nfo \<and>
                                       \<not> incompatible g nfo)"
      then obtain st'' where k: "merge_inputs env io t n (Suc i) rest st' = Continue st''"
        and b: "rest \<noteq> [] \<longrightarrow> bRAWCreated st''"
        and all: "\<forall>inp \<in> set rest. \<exists>nfo. input_info env io t n inp = Some nfo \<and>
                                       \<not> incompatible g nfo"
        by blast
      have "bRAWCreated st''"
      proof (cases "rest = []")
        case True
        with k have "st'' = st'" by simp
        with c show ?thesis by simp
      next
        case False
        with b show ?thesis by simp
      qed
      with k all nfo ok step show ?thesis by auto
    next
      assume "\<exists>st''. merge_inputs env io t n (Suc i) rest st' = Break st'' \<and>
              \<not> bRAWCreated st'' \<and>
              Error ''Incompatible data types.'' \<in> set (messages st'') \<and>
              (\<exists>inp \<in> set rest. \<exists>nfo. input_info env io t n inp = Some nfo \<and>
                                       incompatible g nfo)"
      with step show ?thesis by auto
    qed
  qed
qed


lemma flow_state_simps:
  "flow_state (Continue st) = st" "flow_state (Break st) = st" "flow_state (Return st) = st"
  by (simp_all add: flow_state_def)

text \<open>
  Every file the loop creates is an intermediate file it has recorded, and recorded
  files stay recorded.
\<close>

lemma merge_input_body_files:
  "files (flow_state (merge_input_body env io t n i inp st)) \<subseteq>
     files st \<union> strFilename ` set (vIntermediateFiles (flow_state (merge_input_body env io t n i inp st))) \<and>
   set (vIntermediateFiles st) \<subseteq>
     set (vIntermediateFiles (flow_state (merge_input_body env io t n i inp st)))"
proof (cases "is_uvf_input env inp")
  case True
  then show ?thesis
    by (auto simp: merge_input_body_def is_uvf_input_def merge_uvf_input_def Let_def
          DATA_TYPE_CHECK_fields report_fields flow_state_simps)
next
  case False
  show ?thesis
  proof (cases "first_conversion (identify_converters (input_strFilename inp) (m_vpConverters io))
      (input_strFilename inp) t n")
    case None
    with False show ?thesis
      by (auto simp: merge_input_body_def is_uvf_input_def merge_other_input_def Let_def
            try_converters_eq report_fields flow_state_simps split: option.splits)
  next
    case (Some r)
    with False show ?thesis
      by (auto simp: merge_input_body_def is_uvf_input_def merge_other_input_def Let_def
            try_converters_eq report_fields flow_state_simps)
  qed
qed

lemma merge_inputs_files:
  "files (flow_state (merge_inputs env io t n i rest st)) \<subseteq>
     files st \<union> strFilename ` set (vIntermediateFiles (flow_state (merge_inputs env io t n i rest st))) \<and>
   set (vIntermediateFiles st) \<subseteq>
     set (vIntermediateFiles (flow_state (merge_inputs env io t n i rest st)))"
proof (induction rest arbitrary: i st)
  case Nil
  then show ?case by (simp add: flow_state_simps)
next
  case (Cons inp rest)
  note b = merge_input_body_files [of env io t n i inp st]
  show ?case
  proof (cases "merge_input_body env io t n i inp st")
    case (Continue st')
    let ?st'' = "flow_state (merge_inputs env io t n (Suc i) rest st')"
    from Cons.IH [of "Suc i" st']
    have f2: "files ?st'' \<subseteq> files st' \<union> strFilename ` set (vIntermediateFiles ?st'')"
      and v2: "set (vIntermediateFiles st') \<subseteq> set (vIntermediateFiles ?st'')"
      by simp_all
    from Continue b have f1: "files st' \<subseteq> files st \<union> strFilename ` set (vIntermediateFiles st')"
      and v1: "set (vIntermediateFiles st) \<subseteq> set (vIntermediateFiles st')"
      by (simp_all add: flow_state_simps)
    from v2 have "strFilename ` set (vIntermediateFiles st') \<subseteq>
        strFilename ` set (vIntermediateFiles ?st'')"
      by (rule image_mono)
    with f1 f2 have "files ?st'' \<subseteq> files st \<union> strFilename ` set (vIntermediateFiles ?st'')"
      by blast
    moreover from v1 v2 have "set (vIntermediateFiles st) \<subseteq> set (vIntermediateFiles ?st'')"
      by blast
    ultimately show ?thesis using Continue by simp
  next
    case (Break st')
    with b show ?thesis by (simp add: flow_state_simps)
  next
    case (Return st')
    with b show ?thesis by (simp add: flow_state_simps)
  qed
qed

lemma remove_intermediate_subset: "remove_intermediate fl fs \<subseteq> fs"
  by (induction fl arbitrary: fs) auto

lemma remove_intermediate_removes:
  "f \<in> set fl \<Longrightarrow> bDelete f \<Longrightarrow> strFilename f \<notin> remove_intermediate fl fs"
proof (induction fl arbitrary: fs)
  case Nil
  then show ?case by simp
next
  case (Cons a fl)
  show ?case
  proof (cases "f = a")
    case True
    have "remove_intermediate fl (fs - {strFilename a}) \<subseteq> fs - {strFilename a}"
      by (rule remove_intermediate_subset)
    moreover have "strFilename a \<notin> fs \<Longrightarrow> remove_intermediate fl fs \<subseteq> fs"
      by (rule remove_intermediate_subset)
    ultimately show ?thesis using True Cons.prems(2) by auto
  next
    case False
    with Cons show ?thesis by simp
  qed
qed

text \<open>
  When every input converts, the merge succeeds only if all inputs have the same bit
  width, component count, endianness conversion, signedness, floatness and volume
  size; when two of them differ in one of these, it returns false, reports
  the incompatible data types, removes every intermediate file whose delete flag is
  set, and leaves no file that did not exist before other than intermediate files whose
  delete flag is not set.
\<close>

lemma merge_of_converting_inputs:
  assumes conv: "\<forall>k < length inputs. input_converts env io t n k (inputs ! k)"
  shows "(fst (MergeDatasets env io inputs target t use_max n fs) \<longrightarrow>
            (\<forall>a \<in> set inputs. \<forall>b \<in> set inputs. \<exists>x y.
               input_info env io t n a = Some x \<and> input_info env io t n b = Some y \<and>
               \<not> incompatible x y)) \<and>
         ((\<exists>a \<in> set inputs. \<exists>b \<in> set inputs. \<exists>x y.
               input_info env io t n a = Some x \<and> input_info env io t n b = Some y \<and>
               incompatible x y) \<longrightarrow>
            \<not> fst (MergeDatasets env io inputs target t use_max n fs) \<and>
            Error ''Incompatible data types.''
              \<in> set (messages (snd (MergeDatasets env io inputs target t use_max n fs))) \<and>
            (\<forall>f \<in> set (vIntermediateFiles (snd (MergeDatasets env io inputs target t use_max n fs))).
               bDelete f \<longrightarrow>
               strFilename f \<notin> files (snd (MergeDatasets env io inputs target t use_max n fs))) \<and>
            files (snd (MergeDatasets env io inputs target t use_max n fs)) \<subseteq>
              fs \<union> strFilename `
                set (vIntermediateFiles (snd (MergeDatasets env io inputs target t use_max n fs))))"
proof (cases "inputs = []")
  case True
  then show ?thesis by (simp add: MergeDatasets_def merge_and_convert_def)
next
  case False
  let ?st0 = "\<lparr> bRAWCreated = False, vIntermediateFiles = [],
                G = \<lparr> iComponentSizeG = 0, iComponentCountG = 0, bConvertEndianessG = False,
                      bSignedG = False, bIsFloatG = False, vVolumeSizeG = (0, 0, 0),
                      vVolumeAspectG = (0, 0, 0) \<rparr>,
                files = fs, messages = [] \<rparr>"
  let ?M = "MergeDatasets env io inputs target t use_max n fs"
  from False conv have "input_converts env io t n 0 (inputs ! 0)" by simp
  with False have c0: "input_converts env io t n 0 (hd inputs)" by (simp add: hd_conv_nth)
  from merge_input_body_converts [OF c0, of ?st0]
  obtain g where g: "input_info env io t n (hd inputs) = Some g" by auto
  from conv have conv': "\<forall>k < length inputs. input_converts env io t n (0 + k) (inputs ! k)"
    by simp
  note loop = merge_inputs_converts [OF conv', of ?st0 g]
  note fl = merge_inputs_files [of env io t n 0 inputs ?st0]
  from loop g consider
    (ok) st' where "merge_inputs env io t n 0 inputs ?st0 = Continue st'" "bRAWCreated st'"
        "\<forall>inp \<in> set inputs. \<exists>nfo. input_info env io t n inp = Some nfo \<and> \<not> incompatible g nfo"
    | (bad) st' where "merge_inputs env io t n 0 inputs ?st0 = Break st'" "\<not> bRAWCreated st'"
        "Error ''Incompatible data types.'' \<in> set (messages st')"
    using False by auto
  then show ?thesis
  proof cases
    case ok
    from ok(3) have "\<forall>a \<in> set inputs. \<forall>b \<in> set inputs. \<exists>x y.
               input_info env io t n a = Some x \<and> input_info env io t n b = Some y \<and>
               \<not> incompatible x y"
      by (meson compatible_trans)
    moreover from this have "\<not> (\<exists>a \<in> set inputs. \<exists>b \<in> set inputs. \<exists>x y.
               input_info env io t n a = Some x \<and> input_info env io t n b = Some y \<and>
               incompatible x y)"
      by (metis option.inject)
    ultimately show ?thesis by blast
  next
    case bad
    from bad(1,2) have M: "?M = (False,
         (report (Error ''...  and bailing.'')
            (report (Error ''No raw files.  Deleting temp files...'') st'))
           \<lparr>files := remove_intermediate (vIntermediateFiles st') (files st')\<rparr>)"
      by (simp add: MergeDatasets_def merge_and_convert_def)
    from fl bad(1) have sub: "files st' \<subseteq> fs \<union> strFilename ` set (vIntermediateFiles st')"
      by (simp add: flow_state_simps)
    have "remove_intermediate (vIntermediateFiles st') (files st') \<subseteq> files st'"
      by (rule remove_intermediate_subset)
    with sub have sub': "remove_intermediate (vIntermediateFiles st') (files st')
        \<subseteq> fs \<union> strFilename ` set (vIntermediateFiles st')"
      by blast
    from M bad(3) sub' show ?thesis
      by (simp add: report_fields remove_intermediate_removes)
  qed
qed

text \<open>
  Two inputs that both convert and differ in bit width: the merge returns false,
  reports the incompatible data types, removes both intermediate files and writes no
  output.
\<close>

lemma incompatible_inputs_rejected:
  "case MergeDatasets example_env example_io
          [merge_of ''a.dat'', merge_of ''wide.dat'']
          ''out.uvf'' ''/tmp/'' False True {''a.dat'', ''wide.dat''} of
     (result, st) \<Rightarrow>
        result = False \<and> Error ''Incompatible data types.'' \<in> set (messages st) \<and>
        ''/tmp/a.dat.raw'' \<notin> files st \<and> ''/tmp/wide.dat.raw'' \<notin> files st \<and>
        ''/tmp/merged.raw'' \<notin> files st \<and> ''out.uvf'' \<notin> files st"
  by (simp add: merge_example_defs)

text \<open>
  Claim C3 (the code departs from it). When the export of a UVF input other than the
  first one fails, the loop over the inputs is left with \<^verbatim>\<open>bRAWCreated\<close> still true
  from the input before, so the function does not bail out: it merges the inputs
  converted so far and never looks at the remaining ones. With the inputs \<open>a.dat\<close>
  (8 bit), \<open>full.uvf\<close> (8 bit, export fails) and \<open>wide.dat\<close> (16 bit) the function
  returns true, reports nothing and writes the output from \<open>a.dat\<close> alone, although
  the inputs differ in bit width. When every input converts, the function does what
  the claim says (lemma \<open>merge_of_converting_inputs\<close>).
\<close>

theorem merge_goes_on_after_failed_export:
  "case MergeDatasets example_env example_io
          [merge_of ''a.dat'', merge_of ''full.uvf'', merge_of ''wide.dat'']
          ''out.uvf'' ''/tmp/'' False True {''a.dat'', ''full.uvf'', ''wide.dat''} of
     (result, st) \<Rightarrow>
        result = True \<and> ''out.uvf'' \<in> files st \<and> messages st = [] \<and>
        map strFilename (vIntermediateFiles st) = [''/tmp/a.dat.raw'']"
  by (simp add: merge_example_defs)

text \<open>
  Claim C4 (the code departs from it). A UVF input that cannot be opened makes the
  function return false from inside the loop, without the clean-up that the other
  failure paths run: the intermediate file that the function has named and written for
  the input before, whose delete flag is set, still exists.
\<close>

theorem intermediate_left_after_open_failure:
  "case MergeDatasets example_env example_io
          [merge_of ''a.uvf'', merge_of ''missing.uvf'']
          ''out.uvf'' ''/tmp/'' False True {''a.uvf'', ''missing.uvf''} of
     (result, st) \<Rightarrow>
        result = False \<and> ''/tmp/a.uvf42.raw'' \<in> files st \<and>
        map (\<lambda>f. (strFilename f, bDelete f)) (vIntermediateFiles st) =
          [(''/tmp/a.uvf42.raw'', True)]"
  by (simp add: merge_example_defs)

end
